theory Spec2Isabelle
  imports Complex_Main "HOL-Library.AList"
begin

section \<open>JavaScript values\<close>

text \<open>
  Strings are byte lists holding the UTF-8 encoding of the JavaScript string. The
  source compares strings, splits them at an ASCII dot and matches ASCII digits; all of
  these agree on UTF-8 bytes and on UTF-16 code units. Where the source reads
  \<open>.length\<close> (the 500-character bound on a note) the number of UTF-16 code units is
  computed from the bytes by \<open>utf16_length\<close>.
\<close>

definition utf16_length :: "string \<Rightarrow> nat" where
  "utf16_length s =
     length (filter (\<lambda>c. \<not> (128 \<le> (of_char c :: nat) \<and> (of_char c :: nat) < 192)) s)
     + length (filter (\<lambda>c. 240 \<le> (of_char c :: nat)) s)"

definition is_digit :: "char \<Rightarrow> bool" where
  \<comment> \<open>the regular-expression class \<open>\d\<close>\<close>
  "is_digit c = (c \<in> set ''0123456789'')"

fun js_split :: "char \<Rightarrow> string \<Rightarrow> string list" where
  \<comment> \<open>\<open>s.split(sep)\<close> for a one-character separator; the result is never empty\<close>
  "js_split sep [] = [[]]"
| "js_split sep (c # cs) =
     (if c = sep then [] # js_split sep cs
      else (case js_split sep cs of [] \<Rightarrow> [[c]] | p # ps \<Rightarrow> (c # p) # ps))"

text \<open>
  A JavaScript number is NaN, an infinity or a finite double, and every finite double is
  a rational. Subtraction is written exactly: a double subtraction rounds, but rounding
  changes neither the sign of a difference nor whether it is zero, and the source only
  compares differences with 0.
\<close>

datatype jsnum = NaN | NegInf | Fin rat | PosInf

fun js_strict_neq :: "jsnum \<Rightarrow> jsnum \<Rightarrow> bool" where
  "js_strict_neq NaN b = True"
| "js_strict_neq a NaN = True"
| "js_strict_neq a b = (a \<noteq> b)"

fun js_sub :: "jsnum \<Rightarrow> jsnum \<Rightarrow> jsnum" where
  "js_sub NaN b = NaN"
| "js_sub a NaN = NaN"
| "js_sub PosInf PosInf = NaN"
| "js_sub NegInf NegInf = NaN"
| "js_sub PosInf b = PosInf"
| "js_sub NegInf b = NegInf"
| "js_sub (Fin a) PosInf = NegInf"
| "js_sub (Fin a) NegInf = PosInf"
| "js_sub (Fin a) (Fin b) = Fin (a - b)"

fun js_gt :: "jsnum \<Rightarrow> jsnum \<Rightarrow> bool" where
  "js_gt NaN b = False"
| "js_gt a NaN = False"
| "js_gt PosInf b = (b \<noteq> PosInf)"
| "js_gt NegInf b = False"
| "js_gt (Fin a) PosInf = False"
| "js_gt (Fin a) NegInf = True"
| "js_gt (Fin a) (Fin b) = (b < a)"

text \<open>A value as \<open>JSON.parse\<close> returns it; an object lists its properties in order.\<close>

datatype json =
    JNull
  | JBool bool
  | JNum jsnum
  | JStr string
  | JArr "json list"
  | JObj "(string \<times> json) list"

type_synonym fields = "(string \<times> json) list"

fun truthy :: "json \<Rightarrow> bool" where
  "truthy JNull = False"
| "truthy (JBool b) = b"
| "truthy (JNum n) = (n \<noteq> NaN \<and> n \<noteq> Fin 0)"
| "truthy (JStr s) = (s \<noteq> [])"
| "truthy (JArr xs) = True"
| "truthy (JObj kvs) = True"

section \<open>What the platform and the zod library supply\<close>

datatype schema_id = SchemaV1_0_0 | SchemaV1_1_0 | SchemaV1_2_0 | SchemaCurrent

type_synonym zod_issue = "string list \<times> string"

text \<open>
  The source calls built-ins whose code is not part of the repository. They are taken as
  parameters, so every theorem below holds whatever they return:
  \<^item> \<open>Number_other\<close>: \<open>Number(s)\<close> on a string that is neither empty nor a run of at most
    15 decimal digits (those two cases are computed, see \<open>js_Number\<close>);
  \<^item> \<open>String_other\<close>: the string a template literal makes of a value that is not a
    string, \<open>None\<close> when the conversion throws;
  \<^item> \<open>zod_datetime\<close>: the test of \<open>z.string().datetime()\<close>;
  \<^item> \<open>zod_issues\<close>: the issues (path and message) zod reports when a parse fails;
  \<^item> \<open>savedAt_stale\<close>: whether \<open>new Date(savedAt)\<close> lies before the instant six months
    before the call (the clock is read by \<open>new Date()\<close>);
  \<^item> \<open>JSON_parse\<close>: \<open>JSON.parse\<close>, \<open>None\<close> when it throws.
\<close>

record env =
  Number_other :: "string \<Rightarrow> jsnum"
  String_other :: "json \<Rightarrow> string option"
  zod_datetime :: "string \<Rightarrow> bool"
  zod_issues :: "schema_id \<Rightarrow> json \<Rightarrow> zod_issue list"
  savedAt_stale :: "string \<Rightarrow> bool"
  JSON_parse :: "string \<Rightarrow> json option"

definition decimal_value :: "string \<Rightarrow> nat" where
  "decimal_value s = foldl (\<lambda>n c. 10 * n + (of_char c - 48)) 0 s"

definition js_Number :: "env \<Rightarrow> string \<Rightarrow> jsnum" where
  \<comment> \<open>\<open>Number(s)\<close>: the empty string is 0; up to 15 digits are exact in a double\<close>
  "js_Number e s =
     (if s = [] then Fin 0
      else if list_all is_digit s \<and> length s \<le> 15 then Fin (of_nat (decimal_value s))
      else Number_other e s)"

definition js_String :: "env \<Rightarrow> json \<Rightarrow> string option" where
  \<comment> \<open>the text a template literal inserts for a value\<close>
  "js_String e v = (case v of JStr s \<Rightarrow> Some s | _ \<Rightarrow> String_other e v)"

section \<open>schemas/saveData.ts and schemas/migrations.ts: the schemas\<close>

text \<open>
  The four shift names are the one-character strings U+65E9 (morning), U+5348 (midday),
  U+665A (evening) and U+52A0 (overtime).
\<close>

definition shift_morning :: string where "shift_morning = [CHR 0xE6, CHR 0x97, CHR 0xA9]"
definition shift_afternoon :: string where "shift_afternoon = [CHR 0xE5, CHR 0x8D, CHR 0x88]"
definition shift_evening :: string where "shift_evening = [CHR 0xE6, CHR 0x99, CHR 0x9A]"
definition shift_overtime :: string where "shift_overtime = [CHR 0xE5, CHR 0x8A, CHR 0xA0]"

text \<open>The zod combinators the schemas are built from, as tests on a value.\<close>

definition z_string :: "(string \<Rightarrow> bool) \<Rightarrow> json \<Rightarrow> bool" where
  "z_string ok j = (case j of JStr s \<Rightarrow> ok s | _ \<Rightarrow> False)"

definition z_enum :: "string list \<Rightarrow> json \<Rightarrow> bool" where
  "z_enum vs j = (case j of JStr s \<Rightarrow> s \<in> set vs | _ \<Rightarrow> False)"

definition z_array :: "(json \<Rightarrow> bool) \<Rightarrow> nat \<Rightarrow> nat option \<Rightarrow> json \<Rightarrow> bool" where
  \<comment> \<open>\<open>z.array(elem).min(lo).max(hi)\<close>; \<open>None\<close> when no maximum is declared\<close>
  "z_array elem lo hi j =
     (case j of
        JArr xs \<Rightarrow> list_all elem xs \<and> lo \<le> length xs
                   \<and> (case hi of None \<Rightarrow> True | Some h \<Rightarrow> length xs \<le> h)
      | _ \<Rightarrow> False)"

definition z_record :: "(string \<Rightarrow> bool) \<Rightarrow> (json \<Rightarrow> bool) \<Rightarrow> json \<Rightarrow> bool" where
  "z_record key val j =
     (case j of JObj kvs \<Rightarrow> list_all (\<lambda>kv. key (fst kv) \<and> val (snd kv)) kvs | _ \<Rightarrow> False)"

definition z_required :: "(json \<Rightarrow> bool) \<Rightarrow> json option \<Rightarrow> bool" where
  "z_required ok v = (case v of None \<Rightarrow> False | Some j \<Rightarrow> ok j)"

definition z_optional :: "(json \<Rightarrow> bool) \<Rightarrow> json option \<Rightarrow> bool" where
  "z_optional ok v = (case v of None \<Rightarrow> True | Some j \<Rightarrow> ok j)"

definition z_object :: "(string \<times> (json option \<Rightarrow> bool)) list \<Rightarrow> bool \<Rightarrow> json \<Rightarrow> bool" where
  \<comment> \<open>\<open>z.object(shape)\<close>, and \<open>.strict()\<close> when the flag is set: no key outside the shape\<close>
  "z_object shape strict j =
     (case j of
        JObj kvs \<Rightarrow>
          list_all (\<lambda>entry. snd entry (map_of kvs (fst entry))) shape
          \<and> (if strict then list_all (\<lambda>kv. fst kv \<in> set (map fst shape)) kvs else True)
      | _ \<Rightarrow> False)"

definition any_string :: "string \<Rightarrow> bool" where
  "any_string s = True"

definition non_empty :: "string \<Rightarrow> bool" where
  \<comment> \<open>\<open>.min(1)\<close> on a string\<close>
  "non_empty s = (s \<noteq> [])"

definition ShiftSchema :: "json \<Rightarrow> bool" where
  "ShiftSchema = z_enum [shift_morning, shift_afternoon, shift_evening, shift_overtime]"

definition DateKeySchema :: "string \<Rightarrow> bool" where
  \<comment> \<open>\<open>/^\d{4}-\d{2}-\d{2}$/\<close>\<close>
  "DateKeySchema s =
     (case s of
        [y1, y2, y3, y4, h1, m1, m2, h2, d1, d2] \<Rightarrow>
          list_all is_digit [y1, y2, y3, y4, m1, m2, d1, d2] \<and> h1 = CHR ''-'' \<and> h2 = CHR ''-''
      | _ \<Rightarrow> False)"

definition MonthKeySchema :: "string \<Rightarrow> bool" where
  \<comment> \<open>\<open>/^\d{4}-\d{2}$/\<close>\<close>
  "MonthKeySchema s =
     (case s of
        [y1, y2, y3, y4, h1, m1, m2] \<Rightarrow>
          list_all is_digit [y1, y2, y3, y4, m1, m2] \<and> h1 = CHR ''-''
      | _ \<Rightarrow> False)"

definition ScheduleSchema :: "json \<Rightarrow> bool" where
  "ScheduleSchema =
     z_record DateKeySchema (z_record non_empty (z_array ShiftSchema 0 (Some 4)))"

definition NotesSchema :: "json \<Rightarrow> bool" where
  "NotesSchema = z_record DateKeySchema (z_string (\<lambda>s. utf16_length s \<le> 500))"

definition SaveDataSchema :: "env \<Rightarrow> json \<Rightarrow> bool" where
  "SaveDataSchema e =
     z_object
       [(''version'', z_required (z_string non_empty)),
        (''currentMonth'', z_required (z_string MonthKeySchema)),
        (''pharmacists'', z_required (z_array (z_string non_empty) 1 (Some 20))),
        (''schedule'', z_required ScheduleSchema),
        (''notes'', z_required NotesSchema),
        (''savedAt'', z_required (z_string (zod_datetime e)))]
       True"

definition legacy_schedule :: "string list \<Rightarrow> json \<Rightarrow> bool" where
  "legacy_schedule shifts =
     z_record any_string (z_record any_string (z_array (z_enum shifts) 0 None))"

definition legacy_shape :: "env \<Rightarrow> string list \<Rightarrow> (string \<times> (json option \<Rightarrow> bool)) list" where
  \<comment> \<open>the six fields the three historical schemas declare alike, but for the shift names\<close>
  "legacy_shape e shifts =
     [(''version'', z_required (z_string any_string)),
      (''currentMonth'', z_required (z_string MonthKeySchema)),
      (''pharmacists'', z_required (z_array (z_string any_string) 1 (Some 20))),
      (''schedule'', z_required (legacy_schedule shifts)),
      (''notes'', z_required (z_record any_string (z_string any_string))),
      (''savedAt'', z_required (z_string (zod_datetime e)))]"

definition SaveDataV1_0_0 :: "env \<Rightarrow> json \<Rightarrow> bool" where
  "SaveDataV1_0_0 e =
     z_object (legacy_shape e [shift_morning, shift_afternoon, shift_evening]) False"

definition SaveDataV1_1_0 :: "env \<Rightarrow> json \<Rightarrow> bool" where
  "SaveDataV1_1_0 e =
     z_object
       (legacy_shape e [shift_morning, shift_afternoon, shift_evening, shift_overtime]) False"

definition SaveDataV1_2_0 :: "env \<Rightarrow> json \<Rightarrow> bool" where
  "SaveDataV1_2_0 e =
     z_object
       (legacy_shape e [shift_morning, shift_afternoon, shift_evening, shift_overtime]
        @ [(''metadata'',
            z_optional
              (z_object
                 [(''creator'', z_optional (z_string any_string)),
                  (''department'', z_optional (z_string any_string))]
                 False))])
       False"

section \<open>schemas/migrations.ts: versions and migrations\<close>

record VersionInfo =
  major :: jsnum
  minor :: jsnum
  patch :: jsnum

definition elem_or :: "'a \<Rightarrow> 'a list \<Rightarrow> nat \<Rightarrow> 'a" where
  \<comment> \<open>a destructured array element with its default, used when the array is too short\<close>
  "elem_or d xs i = (if i < length xs then xs ! i else d)"

definition parseVersion :: "env \<Rightarrow> string \<Rightarrow> VersionInfo" where
  "parseVersion e version =
     (let parts = map (js_Number e) (js_split CHR ''.'' version)
      in \<lparr>major = elem_or (Fin 1) parts 0,
          minor = elem_or (Fin 0) parts 1,
          patch = elem_or (Fin 0) parts 2\<rparr>)"

definition compareVersions :: "VersionInfo \<Rightarrow> VersionInfo \<Rightarrow> jsnum" where
  "compareVersions v1 v2 =
     (if js_strict_neq (major v1) (major v2) then js_sub (major v1) (major v2)
      else if js_strict_neq (minor v1) (minor v2) then js_sub (minor v1) (minor v2)
      else js_sub (patch v1) (patch v2))"

text \<open>
  An object spread followed by properties, \<open>{...data, k: v}\<close>: a key the object has
  keeps its place and takes the new value, a new key goes last.
\<close>

definition migration_1_0_0_to_1_1_0 :: "fields \<Rightarrow> fields" where
  "migration_1_0_0_to_1_1_0 data = AList.update ''version'' (JStr ''1.1.0'') data"

definition default_metadata :: json where
  "default_metadata =
     JObj [(''creator'', JStr ''unknown''), (''department'', JStr ''default'')]"

definition migration_1_1_0_to_1_2_0 :: "fields \<Rightarrow> fields" where
  "migration_1_1_0_to_1_2_0 data =
     AList.update ''metadata'' default_metadata
       (AList.update ''version'' (JStr ''1.2.0'') data)"

definition migration_1_0_0_to_1_2_0 :: "fields \<Rightarrow> fields" where
  "migration_1_0_0_to_1_2_0 data =
     (let intermediate = migration_1_0_0_to_1_1_0 data
      in migration_1_1_0_to_1_2_0 intermediate)"

definition migrations :: "(string \<times> (fields \<Rightarrow> fields)) list" where
  "migrations =
     [(''1.0.0->1.1.0'', migration_1_0_0_to_1_1_0),
      (''1.1.0->1.2.0'', migration_1_1_0_to_1_2_0),
      (''1.0.0->1.2.0'', migration_1_0_0_to_1_2_0)]"

datatype migration_error =
    Downgrade string string
    \<comment> \<open>"cannot downgrade from the newer version (current) to (target)"\<close>
  | NoMigrationPath string string
    \<comment> \<open>"no migration path found from (current) to (target)"\<close>
  | MigrationException
    \<comment> \<open>"an error occurred during migration: ...", the text of the \<open>catch\<close> branch\<close>

definition resolve_version :: "fields \<Rightarrow> json" where
  \<comment> \<open>\<open>data.version || '1.0.0'\<close>\<close>
  "resolve_version data =
     (case map_of data ''version'' of
        None \<Rightarrow> JStr ''1.0.0''
      | Some v \<Rightarrow> if truthy v then v else JStr ''1.0.0'')"

definition migrateToLatest :: "env \<Rightarrow> fields \<Rightarrow> string \<Rightarrow> migration_error + fields" where
  \<comment> \<open>\<open>Inr\<close> is \<open>{success: true, data}\<close>, \<open>Inl\<close> is \<open>{success: false, error}\<close>. The
      \<open>catch\<close> turns a throw into an error result: the template literal may throw on a
      value that is no string, and such a value has no \<open>split\<close> method, so that
      \<open>parseVersion\<close> throws a TypeError.\<close>
  "migrateToLatest e data targetVersion =
     (let currentVersion = resolve_version data in
      if currentVersion = JStr targetVersion then Inr data
      else
        (case js_String e currentVersion of
           None \<Rightarrow> Inl MigrationException
         | Some currentText \<Rightarrow>
            (let migrationKey = currentText @ ''->'' @ targetVersion in
             case map_of migrations migrationKey of
               Some migrate \<Rightarrow> Inr (migrate data)
             | None \<Rightarrow>
                (case currentVersion of
                   JStr current \<Rightarrow>
                     (let currentVer = parseVersion e current;
                          targetVer = parseVersion e targetVersion in
                      if js_gt (compareVersions currentVer targetVer) (Fin 0)
                      then Inl (Downgrade current targetVersion)
                      else if current = ''1.0.0'' \<and> targetVersion = ''1.2.0''
                      then Inr (migration_1_0_0_to_1_2_0 data)
                      else Inl (NoMigrationPath current targetVersion))
                 | _ \<Rightarrow> Inl MigrationException))))"

datatype legacy_error =
    UnsupportedVersion string
    \<comment> \<open>"unsupported version: (version)"\<close>
  | LegacyIssue "string list" string
    \<comment> \<open>"(path joined by dots): (message)" of one zod issue\<close>

record LegacyValidation =
  legacy_version :: string
  legacy_isValid :: bool
  legacy_errors :: "legacy_error list"

definition legacy_check ::
  "env \<Rightarrow> string \<Rightarrow> schema_id \<Rightarrow> (json \<Rightarrow> bool) \<Rightarrow> fields \<Rightarrow> LegacyValidation" where
  \<comment> \<open>one \<open>case\<close> of the switch: \<open>parse\<close> returns or throws a ZodError that is caught\<close>
  "legacy_check e version sid schema data =
     (if schema (JObj data)
      then \<lparr>legacy_version = version, legacy_isValid = True, legacy_errors = []\<rparr>
      else \<lparr>legacy_version = version, legacy_isValid = False,
            legacy_errors =
              map (\<lambda>issue. LegacyIssue (fst issue) (snd issue))
                (zod_issues e sid (JObj data))\<rparr>)"

definition validateLegacyData :: "env \<Rightarrow> fields \<Rightarrow> LegacyValidation" where
  "validateLegacyData e data =
     (let version = (case map_of data ''version'' of Some (JStr s) \<Rightarrow> s | _ \<Rightarrow> ''1.0.0'') in
      if version = ''1.0.0'' then legacy_check e version SchemaV1_0_0 (SaveDataV1_0_0 e) data
      else if version = ''1.1.0'' then legacy_check e version SchemaV1_1_0 (SaveDataV1_1_0 e) data
      else if version = ''1.2.0'' then legacy_check e version SchemaV1_2_0 (SaveDataV1_2_0 e) data
      else \<lparr>legacy_version = version, legacy_isValid = False,
            legacy_errors = [UnsupportedVersion version]\<rparr>)"

section \<open>schemas/migrations.ts on a store of objects\<close>

text \<open>
  To state what a call writes, the same function on a store. A document is an object at
  an address; a migration step reads the fields of its argument and allocates the object
  it returns, as the object spread does; the call returns its result, an error or the
  address of the document, together with the store it leaves. Field values are held by
  value: the source writes into no nested object. The direct migration from 1.0.0 to 1.2.0
  runs the two steps in turn and allocates the intermediate document too.
\<close>

record store =
  objects :: "nat \<Rightarrow> fields option"
  next_free :: nat

definition allocate :: "fields \<Rightarrow> store \<Rightarrow> nat \<times> store" where
  \<comment> \<open>a new object with these fields, at the next free address\<close>
  "allocate fs s =
     (next_free s, s\<lparr>objects := (objects s)(next_free s \<mapsto> fs), next_free := Suc (next_free s)\<rparr>)"

fun run_steps :: "(fields \<Rightarrow> fields) list \<Rightarrow> nat \<Rightarrow> store \<Rightarrow> nat \<times> store" where
  \<comment> \<open>each step applied to the object the step before returned\<close>
  "run_steps [] a s = (a, s)"
| "run_steps (step # steps) a s =
     (case objects s a of
        None \<Rightarrow> (a, s)
      | Some d \<Rightarrow> (case allocate (step d) s of (a', s') \<Rightarrow> run_steps steps a' s'))"

definition migration_steps :: "(string \<times> (fields \<Rightarrow> fields) list) list" where
  \<comment> \<open>the table \<open>migrations\<close>, each entry by the steps it runs\<close>
  "migration_steps =
     [(''1.0.0->1.1.0'', [migration_1_0_0_to_1_1_0]),
      (''1.1.0->1.2.0'', [migration_1_1_0_to_1_2_0]),
      (''1.0.0->1.2.0'', [migration_1_0_0_to_1_1_0, migration_1_1_0_to_1_2_0])]"

definition migrateToLatest_store ::
  "env \<Rightarrow> store \<Rightarrow> nat \<Rightarrow> string \<Rightarrow> (migration_error + nat) \<times> store" where
  \<comment> \<open>\<open>migrateToLatest\<close> on the document at an address; reading \<open>version\<close> of what is
      no object throws, which the \<open>catch\<close> turns into an error result\<close>
  "migrateToLatest_store e s a targetVersion =
     (case objects s a of
        None \<Rightarrow> (Inl MigrationException, s)
      | Some d \<Rightarrow>
         (let currentVersion = resolve_version d in
          if currentVersion = JStr targetVersion then (Inr a, s)
          else
            (case js_String e currentVersion of
               None \<Rightarrow> (Inl MigrationException, s)
             | Some currentText \<Rightarrow>
                (let migrationKey = currentText @ ''->'' @ targetVersion in
                 case map_of migration_steps migrationKey of
                   Some steps \<Rightarrow> (case run_steps steps a s of (a', s') \<Rightarrow> (Inr a', s'))
                 | None \<Rightarrow>
                    (case currentVersion of
                       JStr current \<Rightarrow>
                         (let currentVer = parseVersion e current;
                              targetVer = parseVersion e targetVersion in
                          if js_gt (compareVersions currentVer targetVer) (Fin 0)
                          then (Inl (Downgrade current targetVersion), s)
                          else if current = ''1.0.0'' \<and> targetVersion = ''1.2.0''
                          then (case run_steps [migration_1_0_0_to_1_1_0, migration_1_1_0_to_1_2_0]
                                       a s of
                                  (a', s') \<Rightarrow> (Inr a', s'))
                          else (Inl (NoMigrationPath current targetVersion), s))
                     | _ \<Rightarrow> (Inl MigrationException, s))))))"

section \<open>schemas/saveData.ts: the validation facade\<close>

text \<open>
  The error and warning texts of the source, one constructor for each template with the
  values the template inserts.
\<close>

datatype message =
    LegacyFormatError "legacy_error list"
    \<comment> \<open>"legacy data format error: (errors joined by commas)", validateSaveData\<close>
  | MigrationFailed migration_error
    \<comment> \<open>"version migration failed: (error)", validateSaveData\<close>
  | PostMigrationInvalid "string list"
    \<comment> \<open>"validation of the migrated data failed: (messages)", validateSaveData\<close>
  | SchemaIssue "string list" string
    \<comment> \<open>"(path): (message)" of one zod issue of the current schema, validateSaveData\<close>
  | UpgradedSilently string string
    \<comment> \<open>"data was upgraded automatically from version (current) to (target)"\<close>
  | EmptySchedule
    \<comment> \<open>"the schedule data is empty"\<close>
  | StaleSave
    \<comment> \<open>"this save is more than 6 months old ..."\<close>
  | VersionIncompatible string string
    \<comment> \<open>"save version (v) is incompatible with the current version (c)",
        checkVersionCompatibility\<close>
  | VersionDrift string string
    \<comment> \<open>"save version (v) is compatible with the current version (c), but there may be
        slight differences", checkVersionCompatibility\<close>
  | JsonUnparsable
    \<comment> \<open>"file format error: cannot parse JSON", loadFromFile\<close>
  | AutoSaveNotFound
    \<comment> \<open>"no auto-save found", loadAutoSave\<close>
  | AutoSaveCorruptCleared
    \<comment> \<open>"the auto-save was corrupted and has been cleared", loadAutoSave\<close>
  | AutoSaveReadFailedCleared
    \<comment> \<open>"reading the auto-save failed and it has been cleared", loadAutoSave\<close>

record ValidationResult =
  isValid :: bool
  errors :: "message list"
  warnings :: "message list"
  data :: "json option"

definition schedule_is_empty :: "json \<Rightarrow> bool" where
  \<comment> \<open>\<open>Object.keys(saveData.schedule).length === 0\<close>, on a document of the current schema\<close>
  "schedule_is_empty doc =
     (case doc of
        JObj kvs \<Rightarrow> (case map_of kvs ''schedule'' of Some (JObj days) \<Rightarrow> days = [] | _ \<Rightarrow> False)
      | _ \<Rightarrow> False)"

definition saved_too_long_ago :: "env \<Rightarrow> json \<Rightarrow> bool" where
  \<comment> \<open>\<open>savedDate < sixMonthsAgo\<close>, on a document of the current schema\<close>
  "saved_too_long_ago e doc =
     (case doc of
        JObj kvs \<Rightarrow> (case map_of kvs ''savedAt'' of Some (JStr s) \<Rightarrow> savedAt_stale e s | _ \<Rightarrow> False)
      | _ \<Rightarrow> False)"

definition validateCurrent :: "env \<Rightarrow> json \<Rightarrow> ValidationResult" where
  \<comment> \<open>validateSaveData from "validate the latest format directly" to its end\<close>
  "validateCurrent e doc =
     (if \<not> SaveDataSchema e doc
      then \<lparr>isValid = False,
            errors = map (\<lambda>issue. SchemaIssue (fst issue) (snd issue))
                       (zod_issues e SchemaCurrent doc),
            warnings = [], data = None\<rparr>
      else \<lparr>isValid = True, errors = [],
            warnings = (if schedule_is_empty doc then [EmptySchedule] else [])
                       @ (if saved_too_long_ago e doc then [StaleSave] else []),
            data = Some doc\<rparr>)"

definition validateSaveData :: "env \<Rightarrow> json \<Rightarrow> ValidationResult" where
  "validateSaveData e doc =
     (case doc of
        JObj kvs \<Rightarrow>
          if ''version'' \<in> set (map fst kvs) then
            (let legacyValidation = validateLegacyData e kvs in
             if legacy_isValid legacyValidation then
               (let currentVersion =
                      (case map_of kvs ''version'' of Some (JStr v) \<Rightarrow> v | _ \<Rightarrow> ''1.0.0'');
                    targetVersion = ''1.0.0'' in
                if currentVersion \<noteq> targetVersion then
                  (case migrateToLatest e kvs targetVersion of
                     Inr migrated \<Rightarrow>
                       if SaveDataSchema e (JObj migrated)
                       then \<lparr>isValid = True, errors = [],
                             warnings = [UpgradedSilently currentVersion targetVersion],
                             data = Some (JObj migrated)\<rparr>
                       else \<lparr>isValid = False,
                             errors = [PostMigrationInvalid
                                         (map snd (zod_issues e SchemaCurrent (JObj migrated)))],
                             warnings = [], data = None\<rparr>
                   | Inl err \<Rightarrow>
                       \<lparr>isValid = False, errors = [MigrationFailed err],
                        warnings = [], data = None\<rparr>)
                else validateCurrent e doc)
             else \<lparr>isValid = False,
                   errors = [LegacyFormatError (legacy_errors legacyValidation)],
                   warnings = [], data = None\<rparr>)
          else validateCurrent e doc
      | _ \<Rightarrow> validateCurrent e doc)"

definition first_part :: "string \<Rightarrow> string option" where
  \<comment> \<open>\<open>const [major] = version.split('.')\<close>; \<open>None\<close> is \<open>undefined\<close>\<close>
  "first_part version = (case js_split CHR ''.'' version of [] \<Rightarrow> None | p # ps \<Rightarrow> Some p)"

record Compatibility =
  compatible :: bool
  compat_message :: "message option"

definition checkVersionCompatibility :: "string \<Rightarrow> Compatibility" where
  "checkVersionCompatibility version =
     (let currentVersion = ''1.0.0'' in
      if version = currentVersion then \<lparr>compatible = True, compat_message = None\<rparr>
      else if first_part version \<noteq> first_part currentVersion
      then \<lparr>compatible = False,
            compat_message = Some (VersionIncompatible version currentVersion)\<rparr>
      else \<lparr>compatible = True,
            compat_message = Some (VersionDrift version currentVersion)\<rparr>)"

section \<open>utils/saveLoad.ts: loading a file and the auto-save slot\<close>

record LoadResult =
  success :: bool
  load_data :: "json option"
  load_errors :: "message list"
  load_warnings :: "message list"

definition declared_version :: "json option \<Rightarrow> string" where
  \<comment> \<open>\<open>validation.data!.version\<close>; a validated document has a string there\<close>
  "declared_version d =
     (case d of
        Some (JObj kvs) \<Rightarrow> (case map_of kvs ''version'' of Some (JStr v) \<Rightarrow> v | _ \<Rightarrow> [])
      | _ \<Rightarrow> [])"

definition loadFromFile :: "env \<Rightarrow> string \<Rightarrow> LoadResult" where
  \<comment> \<open>the argument is the text of the file\<close>
  "loadFromFile e text =
     (case JSON_parse e text of
        None \<Rightarrow> \<lparr>success = False, load_data = None,
                 load_errors = [JsonUnparsable], load_warnings = []\<rparr>
      | Some doc \<Rightarrow>
          (let validation = validateSaveData e doc in
           if \<not> isValid validation
           then \<lparr>success = False, load_data = None,
                 load_errors = errors validation, load_warnings = warnings validation\<rparr>
           else
             (let versionCheck = checkVersionCompatibility (declared_version (data validation)) in
              if \<not> compatible versionCheck
              then \<lparr>success = False, load_data = None,
                    load_errors = (case compat_message versionCheck of None \<Rightarrow> [] | Some m \<Rightarrow> [m]),
                    load_warnings = warnings validation\<rparr>
              else \<lparr>success = True, load_data = data validation, load_errors = [],
                    load_warnings =
                      warnings validation
                      @ (case compat_message versionCheck of None \<Rightarrow> [] | Some m \<Rightarrow> [m])\<rparr>)))"

text \<open>\<open>localStorage\<close>: a store of strings under string keys.\<close>

type_synonym storage = "string \<Rightarrow> string option"

definition AUTO_SAVE_KEY :: string where
  "AUTO_SAVE_KEY = ''pharmacist-schedule-autosave''"

definition getItem :: "storage \<Rightarrow> string \<Rightarrow> string option" where
  "getItem ls k = ls k"

definition removeItem :: "storage \<Rightarrow> string \<Rightarrow> storage" where
  "removeItem ls k = ls(k := None)"

definition loadAutoSave :: "env \<Rightarrow> storage \<Rightarrow> LoadResult \<times> storage" where
  \<comment> \<open>the result and the store afterwards; \<open>!saved\<close> holds of \<open>null\<close> and of the empty string\<close>
  "loadAutoSave e ls =
     (case getItem ls AUTO_SAVE_KEY of
        None \<Rightarrow>
          (\<lparr>success = False, load_data = None,
            load_errors = [AutoSaveNotFound], load_warnings = []\<rparr>, ls)
      | Some saved \<Rightarrow>
          if saved = []
          then (\<lparr>success = False, load_data = None,
                 load_errors = [AutoSaveNotFound], load_warnings = []\<rparr>, ls)
          else
            (case JSON_parse e saved of
               None \<Rightarrow>
                 (\<lparr>success = False, load_data = None,
                   load_errors = [AutoSaveReadFailedCleared], load_warnings = []\<rparr>,
                  removeItem ls AUTO_SAVE_KEY)
             | Some doc \<Rightarrow>
                 (let validation = validateSaveData e doc in
                  if \<not> isValid validation
                  then (\<lparr>success = False, load_data = None,
                         load_errors = [AutoSaveCorruptCleared], load_warnings = []\<rparr>,
                        removeItem ls AUTO_SAVE_KEY)
                  else (\<lparr>success = True, load_data = data validation, load_errors = [],
                         load_warnings = warnings validation\<rparr>, ls))))"

definition hasAutoSave :: "storage \<Rightarrow> bool" where
  "hasAutoSave ls = (getItem ls AUTO_SAVE_KEY \<noteq> None)"

section \<open>utils/scheduleUtils.ts: requirements and statistics\<close>

datatype Shift = Morning | Afternoon | Evening | Overtime

record RequiredShifts =
  morning :: nat
  afternoon :: nat
  evening :: nat
  maxPerPerson :: "nat option"

record PharmacistStats =
  holidays :: nat
  shifts :: nat
  morningEveningDays :: nat
  mondayHolidays :: nat
  saturdayHolidays :: nat

type_synonym Schedule = "string \<Rightarrow> (string \<Rightarrow> Shift list option) option"

text \<open>
  What the source reads of a \<open>Date\<close>: the key \<open>toISOString().split('T')[0]\<close>, \<open>getDay()\<close>
  (0 is Sunday), \<open>getMonth() + 1\<close> and \<open>getDate()\<close>. The days of the month shown, which
  \<open>getDaysInMonth\<close> enumerates with the platform's calendar and time zone, are a list of
  such days and a parameter of the functions below.
\<close>

record Day =
  dateKey :: string
  dayOfWeek :: nat
  monthNumber :: nat
  dayOfMonth :: nat

definition getRequiredShifts :: "Day \<Rightarrow> RequiredShifts" where
  "getRequiredShifts date =
     (let dow = dayOfWeek date in
      if dow = 1 then \<lparr>morning = 2, afternoon = 2, evening = 2, maxPerPerson = Some 2\<rparr>
      else if dow = 2 \<or> dow = 3 \<or> dow = 4 \<or> dow = 5
      then \<lparr>morning = 1, afternoon = 1, evening = 2, maxPerPerson = None\<rparr>
      else if dow = 6 then \<lparr>morning = 2, afternoon = 1, evening = 1, maxPerPerson = None\<rparr>
      else if dow = 0 then \<lparr>morning = 0, afternoon = 0, evening = 0, maxPerPerson = None\<rparr>
      else \<lparr>morning = 0, afternoon = 0, evening = 0, maxPerPerson = None\<rparr>)"

text \<open>
  A roster object is taken by its own properties, under the prototype every object
  literal has. The entry of a pharmacist on a day is read as
  \<open>(schedule[dateKey] || {})[pharmacist] || []\<close>, and a property read looks through the
  prototype: when the day lists nothing under the name and the name is that of a member
  of \<open>Object.prototype\<close>, the read yields that member and not \<open>undefined\<close>. The members
  are functions, but for \<open>__proto__\<close>, which yields the prototype object; all are truthy,
  none has an \<open>includes\<close> method, and a function has a \<open>length\<close>, the number of its
  parameters. The key of a day is made of digits and hyphens and names no member.
\<close>

definition object_prototype :: "(string \<times> nat option) list" where
  \<comment> \<open>each member with the \<open>length\<close> of the function; \<open>None\<close> for the object \<open>__proto__\<close> yields\<close>
  "object_prototype =
     [(''constructor'', Some 1),
      (''__defineGetter__'', Some 2),
      (''__defineSetter__'', Some 2),
      (''hasOwnProperty'', Some 1),
      (''__lookupGetter__'', Some 1),
      (''__lookupSetter__'', Some 1),
      (''isPrototypeOf'', Some 1),
      (''propertyIsEnumerable'', Some 1),
      (''toString'', Some 0),
      (''valueOf'', Some 0),
      (''__proto__'', None),
      (''toLocaleString'', Some 0)]"

datatype day_entry =
    Listed "Shift list"
    \<comment> \<open>the array the day lists under the name, or the empty array for \<open>undefined\<close>\<close>
  | Inherited "nat option"
    \<comment> \<open>a member of \<open>Object.prototype\<close>, with its \<open>length\<close> if it has one\<close>

definition shifts_on :: "Schedule \<Rightarrow> Day \<Rightarrow> string \<Rightarrow> day_entry" where
  "shifts_on schedule day pharmacist =
     (let daySchedule =
            (case schedule (dateKey day) of None \<Rightarrow> (\<lambda>name. None) | Some listed \<Rightarrow> listed)
      in case daySchedule pharmacist of
           Some s \<Rightarrow> Listed s
         | None \<Rightarrow>
            (case map_of object_prototype pharmacist of
               None \<Rightarrow> Listed []
             | Some member \<Rightarrow> Inherited member))"

definition entry_includes :: "Shift \<Rightarrow> day_entry \<Rightarrow> bool option" where
  \<comment> \<open>\<open>shifts.includes(x)\<close>; \<open>None\<close> is the TypeError "includes is not a function"\<close>
  "entry_includes x en = (case en of Listed s \<Rightarrow> Some (x \<in> set s) | Inherited member \<Rightarrow> None)"

definition entry_length :: "day_entry \<Rightarrow> nat option" where
  \<comment> \<open>\<open>shifts.length\<close>; \<open>None\<close> is \<open>undefined\<close>\<close>
  "entry_length en = (case en of Listed s \<Rightarrow> Some (length s) | Inherited member \<Rightarrow> member)"

fun for_each :: "('a \<Rightarrow> 's \<Rightarrow> 's option) \<Rightarrow> 'a list \<Rightarrow> 's \<Rightarrow> 's option" where
  \<comment> \<open>\<open>xs.forEach(body)\<close> on a state the body updates; \<open>None\<close> once the body has thrown\<close>
  "for_each body [] s = Some s"
| "for_each body (x # xs) s = (case body x s of None \<Rightarrow> None | Some t \<Rightarrow> for_each body xs t)"

definition zero_stats :: PharmacistStats where
  "zero_stats =
     \<lparr>holidays = 0, shifts = 0, morningEveningDays = 0,
      mondayHolidays = 0, saturdayHolidays = 0\<rparr>"

definition count_day :: "nat \<Rightarrow> day_entry \<Rightarrow> PharmacistStats \<Rightarrow> PharmacistStats option" where
  \<comment> \<open>the body of the inner loop of calculateStats, for one pharmacist on one day; on an
      inherited member of length other than 0 the call of \<open>includes\<close> throws\<close>
  "count_day dow en st =
     (if entry_length en = Some 0
      then Some (st\<lparr>holidays := holidays st + 1,
                    mondayHolidays := (if dow = 1 then mondayHolidays st + 1 else mondayHolidays st),
                    saturdayHolidays :=
                      (if dow = 6 then saturdayHolidays st + 1 else saturdayHolidays st)\<rparr>)
      else (case en of
              Listed ss \<Rightarrow>
                Some (st\<lparr>shifts := shifts st + length ss,
                         morningEveningDays :=
                           (if Morning \<in> set ss \<and> Evening \<in> set ss
                            then morningEveningDays st + 1 else morningEveningDays st)\<rparr>)
            | Inherited member \<Rightarrow> None))"

text \<open>
  The object \<open>stats\<close>: its own entries in order, and the record that the assignment
  \<open>stats['__proto__'] = {...}\<close> makes its prototype instead of an entry. A read of
  \<open>stats['__proto__']\<close> yields that record; \<open>Object.values\<close> lists the own entries only.
\<close>

record StatsObject =
  own_stats :: "(string \<times> PharmacistStats) list"
  proto_stats :: "PharmacistStats option"

definition stats_put :: "string \<Rightarrow> PharmacistStats \<Rightarrow> StatsObject \<Rightarrow> StatsObject" where
  \<comment> \<open>\<open>stats[name] = value\<close>, and the update in place of the record under the name\<close>
  "stats_put name v stats =
     (if name = ''__proto__'' then stats\<lparr>proto_stats := Some v\<rparr>
      else stats\<lparr>own_stats := AList.update name v (own_stats stats)\<rparr>)"

definition stats_get :: "StatsObject \<Rightarrow> string \<Rightarrow> PharmacistStats option" where
  \<comment> \<open>\<open>stats[name]\<close> for a name that has been assigned to; the source reads no other\<close>
  "stats_get stats name =
     (if name = ''__proto__'' then proto_stats stats else map_of (own_stats stats) name)"

definition count_pharmacist :: "Schedule \<Rightarrow> Day \<Rightarrow> string \<Rightarrow> StatsObject \<Rightarrow> StatsObject option" where
  "count_pharmacist schedule day pharmacist stats =
     (case stats_get stats pharmacist of
        None \<Rightarrow> None
      | Some st \<Rightarrow>
         (case count_day (dayOfWeek day) (shifts_on schedule day pharmacist) st of
            None \<Rightarrow> None
          | Some st' \<Rightarrow> Some (stats_put pharmacist st' stats)))"

definition calculateStats :: "Day list \<Rightarrow> Schedule \<Rightarrow> string list \<Rightarrow> StatsObject option" where
  \<comment> \<open>\<open>None\<close> when the call throws\<close>
  "calculateStats days schedule pharmacists =
     for_each (\<lambda>day. for_each (count_pharmacist schedule day) pharmacists) days
       (fold (\<lambda>pharmacist. stats_put pharmacist zero_stats) pharmacists
          \<lparr>own_stats = [], proto_stats = None\<rparr>)"

section \<open>app/page.tsx: checkViolations\<close>

text \<open>The violation texts of the source, one constructor for each template.\<close>

datatype violation =
    HeadcountMismatch nat nat Shift nat nat
    \<comment> \<open>"(month)/(day) (period) shift headcount mismatch: (required) needed, (actual) present"\<close>
  | MondayLimitExceeded nat nat string
    \<comment> \<open>"(month)/(day) (pharmacist) exceeds the Monday limit of two periods"\<close>
  | UnevenHolidays string
    \<comment> \<open>"(pharmacist): days off uneven"\<close>
  | UnevenShifts string
    \<comment> \<open>"(pharmacist): periods worked uneven"\<close>
  | UnevenMorningEvening string
    \<comment> \<open>"(pharmacist): morning-and-evening days uneven"\<close>
  | UnevenMondayHolidays string
    \<comment> \<open>"(pharmacist): Mondays off uneven"\<close>
  | UnevenSaturdayHolidays string
    \<comment> \<open>"(pharmacist): Saturdays off uneven"\<close>

fun count_including :: "Shift \<Rightarrow> day_entry list \<Rightarrow> nat option" where
  \<comment> \<open>\<open>pharmacists.filter((p) => entry(p).includes(x)).length\<close> over the entries of the
      pharmacists; \<open>None\<close> when a call of \<open>includes\<close> throws\<close>
  "count_including x [] = Some 0"
| "count_including x (en # ens) =
     (case entry_includes x en of
        None \<Rightarrow> None
      | Some found \<Rightarrow>
         (case count_including x ens of
            None \<Rightarrow> None
          | Some n \<Rightarrow> Some (if found then Suc n else n)))"

definition period_check ::
  "Schedule \<Rightarrow> string list \<Rightarrow> Day \<Rightarrow> Shift \<Rightarrow> nat \<Rightarrow> violation list option" where
  "period_check schedule pharmacists day periodName requiredCount =
     (if requiredCount > 0 then
        (case count_including periodName (map (shifts_on schedule day) pharmacists) of
           None \<Rightarrow> None
         | Some actualCount \<Rightarrow>
            Some (if actualCount \<noteq> requiredCount
                  then [HeadcountMismatch (monthNumber day) (dayOfMonth day) periodName
                          requiredCount actualCount]
                  else []))
      else Some [])"

definition monday_check :: "Schedule \<Rightarrow> string list \<Rightarrow> Day \<Rightarrow> violation list" where
  \<comment> \<open>\<open>shifts.length > 2\<close> is false of \<open>undefined\<close>\<close>
  "monday_check schedule pharmacists day =
     concat (map (\<lambda>pharmacist.
                    if (case entry_length (shifts_on schedule day pharmacist) of
                          None \<Rightarrow> False
                        | Some n \<Rightarrow> n > 2)
                    then [MondayLimitExceeded (monthNumber day) (dayOfMonth day) pharmacist]
                    else [])
               pharmacists)"

definition day_violations :: "Schedule \<Rightarrow> string list \<Rightarrow> Day \<Rightarrow> violation list option" where
  \<comment> \<open>what one turn of \<open>days.forEach\<close> pushes; \<open>None\<close> when it throws\<close>
  "day_violations schedule pharmacists day =
     (let required = getRequiredShifts day in
      if dayOfWeek day = 0 then Some []
      else
        (case period_check schedule pharmacists day Morning (morning required) of
           None \<Rightarrow> None
         | Some v1 \<Rightarrow>
        (case period_check schedule pharmacists day Afternoon (afternoon required) of
           None \<Rightarrow> None
         | Some v2 \<Rightarrow>
        (case period_check schedule pharmacists day Evening (evening required) of
           None \<Rightarrow> None
         | Some v3 \<Rightarrow>
            Some (v1 @ v2 @ v3
                  @ (if dayOfWeek day = 1 then monday_check schedule pharmacists day
                     else []))))))"

definition average_of :: "(PharmacistStats \<Rightarrow> nat) \<Rightarrow> StatsObject \<Rightarrow> rat" where
  \<comment> \<open>\<open>Object.values(stats).reduce((sum, s) => sum + s.field, 0) / 4\<close>; sums of counts and
      their quarters are exact in doubles\<close>
  "average_of field stats = of_nat (sum_list (map (\<lambda>kv. field (snd kv)) (own_stats stats))) / 4"

definition balance_check :: "StatsObject \<Rightarrow> string \<Rightarrow> PharmacistStats \<Rightarrow> violation list" where
  "balance_check stats pharmacist s =
     (if \<bar>of_nat (holidays s) - average_of holidays stats\<bar> > 2
      then [UnevenHolidays pharmacist] else [])
     @ (if \<bar>of_nat (shifts s) - average_of shifts stats\<bar> > 3
        then [UnevenShifts pharmacist] else [])
     @ (if \<bar>of_nat (morningEveningDays s) - average_of morningEveningDays stats\<bar> > 1
        then [UnevenMorningEvening pharmacist] else [])
     @ (if \<bar>of_nat (mondayHolidays s) - average_of mondayHolidays stats\<bar> > 1
        then [UnevenMondayHolidays pharmacist] else [])
     @ (if \<bar>of_nat (saturdayHolidays s) - average_of saturdayHolidays stats\<bar> > 1
        then [UnevenSaturdayHolidays pharmacist] else [])"

definition balance_violations :: "StatsObject \<Rightarrow> string list \<Rightarrow> violation list" where
  \<comment> \<open>the last loop of checkViolations; every pharmacist has been assigned to in \<open>stats\<close>\<close>
  "balance_violations stats pharmacists =
     concat (map (\<lambda>pharmacist.
                    case stats_get stats pharmacist of
                      None \<Rightarrow> []
                    | Some s \<Rightarrow> balance_check stats pharmacist s)
               pharmacists)"

definition checkViolations :: "Day list \<Rightarrow> Schedule \<Rightarrow> string list \<Rightarrow> violation list option" where
  \<comment> \<open>the list handed to \<open>setViolations\<close>, \<open>None\<close> when the function throws before it
      gets there; \<open>days\<close> is \<open>getDaysInMonth(currentMonth)\<close>\<close>
  "checkViolations days schedule pharmacists =
     (case for_each (\<lambda>day newViolations.
                       map_option (\<lambda>pushed. newViolations @ pushed)
                         (day_violations schedule pharmacists day))
             days [] of
        None \<Rightarrow> None
      | Some newViolations \<Rightarrow>
         (case calculateStats days schedule pharmacists of
            None \<Rightarrow> None
          | Some stats \<Rightarrow> Some (newViolations @ balance_violations stats pharmacists)))"

section \<open>The quantities and conditions the specification names\<close>

text \<open>
  The five tracked quantities of a worker over the days of the month, counted from the
  roster as the specification words them: days off, total periods worked, days with both
  the morning and the evening period, days off on the heavy-staffing weekday (Monday) and
  days off on the light-staffing weekend day (Saturday).
\<close>

definition listed_shifts :: "Schedule \<Rightarrow> Day \<Rightarrow> string \<Rightarrow> Shift list" where
  \<comment> \<open>the periods the roster lists for the worker on the day, none when it lists no entry\<close>
  "listed_shifts roster d w =
     (case roster (dateKey d) of
        None \<Rightarrow> []
      | Some listed \<Rightarrow> (case listed w of None \<Rightarrow> [] | Some s \<Rightarrow> s))"

definition ordinary_name :: "string \<Rightarrow> bool" where
  \<comment> \<open>a name that is not the name of a member of \<open>Object.prototype\<close>\<close>
  "ordinary_name w = (w \<notin> set (map fst object_prototype))"

definition emits :: "violation \<Rightarrow> violation list option \<Rightarrow> bool" where
  \<comment> \<open>the evaluation returns a list and the violation is in it\<close>
  "emits v r = (case r of None \<Rightarrow> False | Some vs \<Rightarrow> v \<in> set vs)"

datatype quantity = DaysOff | TotalPeriods | MorningEveningDayCount | HeavyWeekdayOff | WeekendOff

fun tracked :: "quantity \<Rightarrow> Day list \<Rightarrow> Schedule \<Rightarrow> string \<Rightarrow> nat" where
  "tracked DaysOff days roster w = length (filter (\<lambda>d. listed_shifts roster d w = []) days)"
| "tracked TotalPeriods days roster w = sum_list (map (\<lambda>d. length (listed_shifts roster d w)) days)"
| "tracked MorningEveningDayCount days roster w =
     length (filter (\<lambda>d. Morning \<in> set (listed_shifts roster d w)
                         \<and> Evening \<in> set (listed_shifts roster d w)) days)"
| "tracked HeavyWeekdayOff days roster w =
     length (filter (\<lambda>d. listed_shifts roster d w = [] \<and> dayOfWeek d = 1) days)"
| "tracked WeekendOff days roster w =
     length (filter (\<lambda>d. listed_shifts roster d w = [] \<and> dayOfWeek d = 6) days)"

fun threshold :: "quantity \<Rightarrow> rat" where
  "threshold DaysOff = 2"
| "threshold TotalPeriods = 3"
| "threshold MorningEveningDayCount = 1"
| "threshold HeavyWeekdayOff = 1"
| "threshold WeekendOff = 1"

fun fairness_violation :: "quantity \<Rightarrow> string \<Rightarrow> violation" where
  "fairness_violation DaysOff w = UnevenHolidays w"
| "fairness_violation TotalPeriods w = UnevenShifts w"
| "fairness_violation MorningEveningDayCount w = UnevenMorningEvening w"
| "fairness_violation HeavyWeekdayOff w = UnevenMondayHolidays w"
| "fairness_violation WeekendOff w = UnevenSaturdayHolidays w"

definition total_of :: "quantity \<Rightarrow> Day list \<Rightarrow> Schedule \<Rightarrow> string list \<Rightarrow> nat" where
  "total_of q days roster workers = sum_list (map (tracked q days roster) workers)"

definition mean_of :: "quantity \<Rightarrow> Day list \<Rightarrow> Schedule \<Rightarrow> string list \<Rightarrow> rat" where
  \<comment> \<open>the arithmetic mean across the workers of the list\<close>
  "mean_of q days roster workers =
     of_nat (total_of q days roster workers) / of_nat (length workers)"

definition deviates_from_mean ::
  "quantity \<Rightarrow> Day list \<Rightarrow> Schedule \<Rightarrow> string list \<Rightarrow> string \<Rightarrow> bool" where
  "deviates_from_mean q days roster workers w =
     (\<bar>of_nat (tracked q days roster w) - mean_of q days roster workers\<bar> > threshold q)"

definition some_quantity_deviates ::
  "Day list \<Rightarrow> Schedule \<Rightarrow> string list \<Rightarrow> string \<Rightarrow> bool" where
  "some_quantity_deviates days roster workers w =
     list_ex (\<lambda>q. deviates_from_mean q days roster workers w)
       [DaysOff, TotalPeriods, MorningEveningDayCount, HeavyWeekdayOff, WeekendOff]"

definition is_fairness_violation :: "violation \<Rightarrow> bool" where
  "is_fairness_violation v =
     (case v of HeadcountMismatch m d p r a \<Rightarrow> False
              | MondayLimitExceeded m d w \<Rightarrow> False
              | _ \<Rightarrow> True)"

definition assigned_count :: "Schedule \<Rightarrow> string list \<Rightarrow> Day \<Rightarrow> Shift \<Rightarrow> nat" where
  \<comment> \<open>how many workers of the list have the period in their entry of the day\<close>
  "assigned_count roster workers d p =
     length (filter (\<lambda>w. p \<in> set (listed_shifts roster d w)) (remdups workers))"

definition within_cap :: "Schedule \<Rightarrow> string list \<Rightarrow> Day \<Rightarrow> bool" where
  \<comment> \<open>no worker has more periods on the day than the day's per-person cap, if it has one\<close>
  "within_cap roster workers d =
     (case maxPerPerson (getRequiredShifts d) of
        None \<Rightarrow> True
      | Some cap \<Rightarrow> list_all (\<lambda>w. length (listed_shifts roster d w) \<le> cap) workers)"

definition staffed_as_required :: "Schedule \<Rightarrow> string list \<Rightarrow> Day \<Rightarrow> bool" where
  "staffed_as_required roster workers d =
     (assigned_count roster workers d Morning = morning (getRequiredShifts d)
      \<and> assigned_count roster workers d Afternoon = afternoon (getRequiredShifts d)
      \<and> assigned_count roster workers d Evening = evening (getRequiredShifts d)
      \<and> within_cap roster workers d)"

definition month_staffed :: "Schedule \<Rightarrow> string list \<Rightarrow> Day list \<Rightarrow> bool" where
  \<comment> \<open>every day of the list that is no Sunday is staffed as required\<close>
  "month_staffed roster workers days =
     list_all (\<lambda>d. dayOfWeek d = 0 \<or> staffed_as_required roster workers d) days"

definition is_upgrade_warning :: "message \<Rightarrow> bool" where
  "is_upgrade_warning m = (case m of UpgradedSilently a b \<Rightarrow> True | _ \<Rightarrow> False)"

definition is_version_incompatible :: "message \<Rightarrow> bool" where
  "is_version_incompatible m = (case m of VersionIncompatible a b \<Rightarrow> True | _ \<Rightarrow> False)"

section \<open>Concrete inputs\<close>

definition iso_datetime :: "string \<Rightarrow> bool" where
  \<comment> \<open>\<open>YYYY-MM-DDTHH:MM:SS\<close>, an optional fraction of digits, then \<open>Z\<close>: the form zod
      describes for \<open>datetime()\<close> without options\<close>
  "iso_datetime s =
     (let d = take 19 s; r = drop 19 s in
      length d = 19
      \<and> list_all (\<lambda>i. is_digit (d ! i)) [0, 1, 2, 3, 5, 6, 8, 9, 11, 12, 14, 15, 17, 18]
      \<and> d ! 4 = CHR ''-'' \<and> d ! 7 = CHR ''-'' \<and> d ! 10 = CHR ''T''
      \<and> d ! 13 = CHR '':'' \<and> d ! 16 = CHR '':''
      \<and> (r = ''Z''
         \<or> (case r of
               [] \<Rightarrow> False
             | c # rest \<Rightarrow> c = CHR ''.'' \<and> length rest \<ge> 2 \<and> last rest = CHR ''Z''
                           \<and> list_all is_digit (butlast rest))))"

definition env0 :: env where
  \<comment> \<open>an environment to evaluate with: a clock less than six months after every save and
      a parser that accepts nothing; the other built-ins are not reached by the inputs
      below, whose versions are strings of digits and dots\<close>
  "env0 =
     \<lparr>Number_other = (\<lambda>s. NaN),
      String_other = (\<lambda>v. None),
      zod_datetime = iso_datetime,
      zod_issues = (\<lambda>sid doc. []),
      savedAt_stale = (\<lambda>s. False),
      JSON_parse = (\<lambda>s. None)\<rparr>"

definition env_reading :: "json \<Rightarrow> env" where
  \<comment> \<open>the same with a parser that returns the given document for the text it is given\<close>
  "env_reading doc = env0\<lparr>JSON_parse := (\<lambda>s. Some doc)\<rparr>"

definition env_number_2 :: env where
  \<comment> \<open>the same with the text a template literal makes of the number 2\<close>
  "env_number_2 = env0\<lparr>String_other := (\<lambda>v. if v = JNum (Fin 2) then Some ''2'' else None)\<rparr>"

definition name_qiu :: string where "name_qiu = [CHR 0xE9, CHR 0x82, CHR 0xB1]"
definition name_huang :: string where "name_huang = [CHR 0xE9, CHR 0xBB, CHR 0x83]"

definition sample_body :: fields where
  \<comment> \<open>the fields of the sample document other than its version; U+90B1 and U+9EC3 are the
      two names. The specification calls \<open>currentMonth\<close>, \<open>pharmacists\<close> and \<open>schedule\<close>
      period, workers and roster.\<close>
  "sample_body =
     [(''currentMonth'', JStr ''2025-01''),
      (''pharmacists'', JArr [JStr name_qiu, JStr name_huang]),
      (''schedule'',
         JObj [(''2025-01-01'',
                JObj [(name_qiu, JArr [JStr shift_morning]),
                      (name_huang, JArr [JStr shift_evening])])]),
      (''notes'', JObj []),
      (''savedAt'', JStr ''2025-01-01T12:00:00.000Z'')]"

definition sample_fields :: "string \<Rightarrow> fields" where
  "sample_fields v = (''version'', JStr v) # sample_body"

definition sample_store :: "fields \<Rightarrow> store" where
  \<comment> \<open>a store that holds one document, at address 0\<close>
  "sample_store d = \<lparr>objects = [0 \<mapsto> d], next_free = 1\<rparr>"

definition sample_spec_names :: fields where
  \<comment> \<open>the sample document of version 1.0.0 under the field names of the specification\<close>
  "sample_spec_names =
     [(''version'', JStr ''1.0.0''),
      (''period'', JStr ''2025-01''),
      (''workers'', JArr [JStr name_qiu, JStr name_huang]),
      (''roster'',
         JObj [(''2025-01-01'',
                JObj [(name_qiu, JArr [JStr shift_morning]),
                      (name_huang, JArr [JStr shift_evening])])]),
      (''notes'', JObj []),
      (''savedAt'', JStr ''2025-01-01T12:00:00.000Z'')]"

definition february_2025 :: "Day list" where
  \<comment> \<open>the 28 days of February 2025 in a UTC time zone; the 1st is a Saturday\<close>
  "february_2025 =
     map (\<lambda>i. \<lparr>dateKey = ''2025-02-'' @ [char_of (48 + (i + 1) div 10), char_of (48 + (i + 1) mod 10)],
               dayOfWeek = (6 + i) mod 7, monthNumber = 2, dayOfMonth = i + 1\<rparr>)
       [0 ..< 28]"

definition staff4 :: "string list" where
  "staff4 = [''Wang'', ''Li'', ''Zhang'', ''Chen'']"


definition empty_roster :: Schedule where
  "empty_roster = (\<lambda>k. None)"

definition lopsided_day :: "nat \<Rightarrow> (string \<times> Shift list) list" where
  \<comment> \<open>who works on a weekday: exactly the required numbers, Wang whenever possible\<close>
  "lopsided_day dow =
     (if dow = 0 then []
      else if dow = 1
      then [(''Wang'', [Morning, Afternoon]), (''Li'', [Morning, Afternoon]),
            (''Zhang'', [Evening]), (''Chen'', [Evening])]
      else if dow = 6
      then [(''Wang'', [Morning, Afternoon, Evening]), (''Li'', [Morning])]
      else [(''Wang'', [Morning, Afternoon, Evening]), (''Li'', [Evening])])"

definition lopsided_roster :: Schedule where
  "lopsided_roster =
     map_of (map (\<lambda>d. (dateKey d, map_of (lopsided_day (dayOfWeek d)))) february_2025)"

section \<open>Auxiliary functions of the proofs\<close>

text \<open>What the inner loop body makes of a listed entry.\<close>

definition count_listed :: "nat \<Rightarrow> Shift list \<Rightarrow> PharmacistStats \<Rightarrow> PharmacistStats" where
  "count_listed dow ss st =
     (if length ss = 0
      then st\<lparr>holidays := holidays st + 1,
              mondayHolidays := (if dow = 1 then mondayHolidays st + 1 else mondayHolidays st),
              saturdayHolidays :=
                (if dow = 6 then saturdayHolidays st + 1 else saturdayHolidays st)\<rparr>
      else st\<lparr>shifts := shifts st + length ss,
              morningEveningDays :=
                (if Morning \<in> set ss \<and> Evening \<in> set ss
                 then morningEveningDays st + 1 else morningEveningDays st)\<rparr>)"

text \<open>The statistics of one worker: that body folded over the days.\<close>

definition worker_stats :: "Day list \<Rightarrow> Schedule \<Rightarrow> string \<Rightarrow> PharmacistStats \<Rightarrow> PharmacistStats" where
  "worker_stats days roster w st =
     fold (\<lambda>day. count_listed (dayOfWeek day) (listed_shifts roster day w)) days st"

text \<open>The field of the statistics record that holds a tracked quantity.\<close>

fun stat_field :: "quantity \<Rightarrow> PharmacistStats \<Rightarrow> nat" where
  "stat_field DaysOff = holidays"
| "stat_field TotalPeriods = shifts"
| "stat_field MorningEveningDayCount = morningEveningDays"
| "stat_field HeavyWeekdayOff = mondayHolidays"
| "stat_field WeekendOff = saturdayHolidays"

text \<open>The comparison the source makes: with a quarter of the total.\<close>

definition deviates_from_quarter ::
  "quantity \<Rightarrow> Day list \<Rightarrow> Schedule \<Rightarrow> string list \<Rightarrow> string \<Rightarrow> bool" where
  "deviates_from_quarter q days roster workers w =
     (\<bar>of_nat (tracked q days roster w) - of_nat (total_of q days roster workers) / 4\<bar>
        > threshold q)"

text \<open>The object \<open>stats\<close> that lists the given names in order, each with a record.\<close>

definition stats_table :: "(string \<Rightarrow> PharmacistStats) \<Rightarrow> string list \<Rightarrow> StatsObject" where
  "stats_table g qs = \<lparr>own_stats = map (\<lambda>q. (q, g q)) qs, proto_stats = None\<rparr>"

section \<open>Versions, migrations and validation\<close>

text \<open>Comparisons of numbers, the keys of the migration table, the registered versions.\<close>

lemma js_gt_irrefl: "\<not> js_gt a a"
  by (cases a) simp_all

lemma js_gt_compare:
  "js_gt a b \<Longrightarrow> js_strict_neq a b \<and> js_gt (js_sub a b) (Fin 0)"
  by (cases a; cases b) simp_all

lemma js_gt_zero_one: "js_gt (Fin 0) b \<Longrightarrow> js_gt (Fin 1) b"
  by (cases b) simp_all

lemma compareVersions_major:
  "js_gt (major v1) (major v2) \<Longrightarrow> js_gt (compareVersions v1 v2) (Fin 0)"
  by (simp add: compareVersions_def js_gt_compare)

lemma arrow_key_1_1:
  "cur @ CHR ''-'' # CHR ''>'' # tgt = ''1.0.0->1.1.0'' \<longleftrightarrow> cur = ''1.0.0'' \<and> tgt = ''1.1.0''"
  by (auto simp: append_eq_Cons_conv)

lemma arrow_key_1_2:
  "cur @ CHR ''-'' # CHR ''>'' # tgt = ''1.1.0->1.2.0'' \<longleftrightarrow> cur = ''1.1.0'' \<and> tgt = ''1.2.0''"
  by (auto simp: append_eq_Cons_conv)

lemma arrow_key_0_2:
  "cur @ CHR ''-'' # CHR ''>'' # tgt = ''1.0.0->1.2.0'' \<longleftrightarrow> cur = ''1.0.0'' \<and> tgt = ''1.2.0''"
  by (auto simp: append_eq_Cons_conv)

lemma migrations_lookup:
  "map_of migrations (cur @ CHR ''-'' # CHR ''>'' # tgt) =
     (if cur = ''1.0.0'' \<and> tgt = ''1.1.0'' then Some migration_1_0_0_to_1_1_0
      else if cur = ''1.1.0'' \<and> tgt = ''1.2.0'' then Some migration_1_1_0_to_1_2_0
      else if cur = ''1.0.0'' \<and> tgt = ''1.2.0'' then Some migration_1_0_0_to_1_2_0
      else None)"
  by (simp add: migrations_def arrow_key_1_1 arrow_key_1_2 arrow_key_0_2)

lemma parse_1_0_0: "parseVersion e ''1.0.0'' = \<lparr>major = Fin 1, minor = Fin 0, patch = Fin 0\<rparr>"
  by (simp add: parseVersion_def js_Number_def elem_or_def is_digit_def decimal_value_def Let_def)

lemma parse_1_1_0: "parseVersion e ''1.1.0'' = \<lparr>major = Fin 1, minor = Fin 1, patch = Fin 0\<rparr>"
  by (simp add: parseVersion_def js_Number_def elem_or_def is_digit_def decimal_value_def Let_def)

lemma parse_1_2_0: "parseVersion e ''1.2.0'' = \<lparr>major = Fin 1, minor = Fin 2, patch = Fin 0\<rparr>"
  by (simp add: parseVersion_def js_Number_def elem_or_def is_digit_def decimal_value_def Let_def)

lemma major_empty: "major (parseVersion e []) = Fin 0"
  by (simp add: parseVersion_def js_Number_def elem_or_def)

lemma migrate_to_1_0_0_fails:
  assumes "map_of d ''version'' = Some (JStr v)" and "v = ''1.1.0'' \<or> v = ''1.2.0''"
  shows "migrateToLatest e d ''1.0.0'' = Inl (Downgrade v ''1.0.0'')"
proof -
  have res: "resolve_version d = JStr v"
    using assms by (auto simp: resolve_version_def)
  have nokey: "map_of migrations (v @ ''->'' @ ''1.0.0'') = None"
    by (simp add: migrations_lookup)
  have cmp: "js_gt (compareVersions (parseVersion e v) (parseVersion e ''1.0.0'')) (Fin 0)"
    using assms(2) by (auto simp: compareVersions_def parse_1_0_0 parse_1_1_0 parse_1_2_0)
  show ?thesis
    unfolding migrateToLatest_def Let_def res
    using assms(2) nokey cmp by (auto simp: js_String_def)
qed

text \<open>What a passing schema says of the version field.\<close>

lemma schema_needs_version:
  assumes "z_object ((''version'', z_required (z_string ok)) # shape) strict (JObj kvs)"
  shows "\<exists>v. map_of kvs ''version'' = Some (JStr v) \<and> ok v"
  using assms
  by (auto simp: z_object_def z_required_def z_string_def split: option.splits json.splits)

lemma V1_0_0_version:
  "SaveDataV1_0_0 e (JObj kvs) \<Longrightarrow> \<exists>v. map_of kvs ''version'' = Some (JStr v)"
  unfolding SaveDataV1_0_0_def legacy_shape_def by (drule schema_needs_version) auto

lemma legacy_valid_version:
  assumes "legacy_isValid (validateLegacyData e kvs)"
  shows "\<exists>v. map_of kvs ''version'' = Some (JStr v)
           \<and> (v = ''1.0.0'' \<or> v = ''1.1.0'' \<or> v = ''1.2.0'')"
proof (cases "\<exists>v. map_of kvs ''version'' = Some (JStr v)")
  case True
  then obtain v where v: "map_of kvs ''version'' = Some (JStr v)" by blast
  with assms show ?thesis
    by (auto simp: validateLegacyData_def legacy_check_def Let_def split: if_splits)
next
  case False
  then have "(case map_of kvs ''version'' of Some (JStr s) \<Rightarrow> s | _ \<Rightarrow> ''1.0.0'') = ''1.0.0''"
    by (auto split: option.splits json.splits)
  with assms have "SaveDataV1_0_0 e (JObj kvs)"
    by (auto simp: validateLegacyData_def legacy_check_def Let_def split: if_splits)
  with False V1_0_0_version show ?thesis by blast
qed

lemma current_schema_version:
  "SaveDataSchema e doc \<Longrightarrow> \<exists>kvs v. doc = JObj kvs \<and> map_of kvs ''version'' = Some (JStr v)"
proof (cases doc)
  case (JObj kvs)
  assume "SaveDataSchema e doc"
  with JObj have "\<exists>v. map_of kvs ''version'' = Some (JStr v) \<and> non_empty v"
    unfolding SaveDataSchema_def by (intro schema_needs_version) simp
  with JObj show ?thesis by blast
qed (simp_all add: SaveDataSchema_def z_object_def)

lemma validateCurrent_valid: "isValid (validateCurrent e doc) = SaveDataSchema e doc"
  by (simp add: validateCurrent_def)

lemma validateCurrent_no_upgrade:
  "\<not> list_ex is_upgrade_warning (warnings (validateCurrent e doc))"
  by (simp add: validateCurrent_def is_upgrade_warning_def)

lemma map_of_key_present: "k \<in> fst ` set kvs \<longleftrightarrow> map_of kvs k \<noteq> None"
  by (simp add: map_of_eq_None_iff)

lemma validate_cases:
  "validateSaveData e doc = validateCurrent e doc
   \<or> (\<not> isValid (validateSaveData e doc) \<and> warnings (validateSaveData e doc) = [])"
proof (cases doc)
  case (JObj kvs)
  show ?thesis
  proof (cases "''version'' \<in> fst ` set kvs \<and> legacy_isValid (validateLegacyData e kvs)")
    case True
    then obtain v where v: "map_of kvs ''version'' = Some (JStr v)"
      and three: "v = ''1.0.0'' \<or> v = ''1.1.0'' \<or> v = ''1.2.0''"
      using legacy_valid_version by blast
    show ?thesis
    proof (cases "v = ''1.0.0''")
      case True
      with JObj v \<open>_ \<and> _\<close> show ?thesis by (simp add: validateSaveData_def)
    next
      case False
      with three have "migrateToLatest e kvs ''1.0.0'' = Inl (Downgrade v ''1.0.0'')"
        using migrate_to_1_0_0_fails[OF v] by blast
      with JObj v False \<open>_ \<and> _\<close> show ?thesis by (simp add: validateSaveData_def)
    qed
  next
    case False
    with JObj show ?thesis by (auto simp: validateSaveData_def Let_def)
  qed
qed (simp_all add: validateSaveData_def)

lemma valid_needs_1_0_0:
  assumes "isValid (validateSaveData e doc)"
  shows "\<exists>kvs. doc = JObj kvs \<and> map_of kvs ''version'' = Some (JStr ''1.0.0'')"
proof -
  from assms validate_cases[of e doc] have cur: "validateSaveData e doc = validateCurrent e doc"
    by auto
  with assms have "SaveDataSchema e doc" by (simp add: validateCurrent_valid)
  then obtain kvs v where doc: "doc = JObj kvs" and v: "map_of kvs ''version'' = Some (JStr v)"
    using current_schema_version by blast
  then have key: "''version'' \<in> fst ` set kvs" by (simp add: map_of_key_present)
  have "legacy_isValid (validateLegacyData e kvs)"
  proof (rule ccontr)
    assume "\<not> legacy_isValid (validateLegacyData e kvs)"
    with doc key have "\<not> isValid (validateSaveData e doc)"
      by (simp add: validateSaveData_def)
    with assms show False by simp
  qed
  then have three: "v = ''1.0.0'' \<or> v = ''1.1.0'' \<or> v = ''1.2.0''"
    using legacy_valid_version v by fastforce
  have "v = ''1.0.0''"
  proof (rule ccontr)
    assume ne: "v \<noteq> ''1.0.0''"
    with three have "migrateToLatest e kvs ''1.0.0'' = Inl (Downgrade v ''1.0.0'')"
      using migrate_to_1_0_0_fails[OF v] by blast
    with doc key v ne \<open>legacy_isValid _\<close> have "\<not> isValid (validateSaveData e doc)"
      by (simp add: validateSaveData_def)
    with assms show False by simp
  qed
  with doc v show ?thesis by simp
qed

text \<open>
  Claim C10. validateSaveData returns a valid result only for an object whose version
  field is the string 1.0.0 and which satisfies the current strict schema, and on no
  input do its warnings hold the upgrade notice.
\<close>

theorem valid_only_version_1_0_0:
  "(isValid (validateSaveData e doc) \<longrightarrow>
      (\<exists>kvs. doc = JObj kvs \<and> map_of kvs ''version'' = Some (JStr ''1.0.0''))
      \<and> SaveDataSchema e doc)
   \<and> \<not> list_ex is_upgrade_warning (warnings (validateSaveData e doc))"
proof (intro conjI impI)
  assume ok: "isValid (validateSaveData e doc)"
  then show "\<exists>kvs. doc = JObj kvs \<and> map_of kvs ''version'' = Some (JStr ''1.0.0'')"
    by (rule valid_needs_1_0_0)
  from ok validate_cases[of e doc] show "SaveDataSchema e doc"
    by (auto simp: validateCurrent_valid)
next
  from validate_cases[of e doc]
  show "\<not> list_ex is_upgrade_warning (warnings (validateSaveData e doc))"
    by (auto simp: validateCurrent_no_upgrade)
qed

lemma unsupported_version:
  assumes "map_of kvs ''version'' = Some (JStr v)"
    and "v \<noteq> ''1.0.0''" "v \<noteq> ''1.1.0''" "v \<noteq> ''1.2.0''"
  shows "validateSaveData e (JObj kvs) =
         \<lparr>isValid = False, errors = [LegacyFormatError [UnsupportedVersion v]],
          warnings = [], data = None\<rparr>"
proof -
  from assms(1) have key: "''version'' \<in> fst ` set kvs" by (simp add: map_of_key_present)
  have "validateLegacyData e kvs =
        \<lparr>legacy_version = v, legacy_isValid = False, legacy_errors = [UnsupportedVersion v]\<rparr>"
    using assms by (simp add: validateLegacyData_def)
  with key show ?thesis by (simp add: validateSaveData_def)
qed

lemma no_version_rejected:
  assumes "''version'' \<notin> fst ` set kvs"
  shows "\<not> isValid (validateSaveData e (JObj kvs))"
proof
  assume "isValid (validateSaveData e (JObj kvs))"
  then obtain kvs' where "JObj kvs = JObj kvs'" "map_of kvs' ''version'' = Some (JStr ''1.0.0'')"
    using valid_needs_1_0_0 by blast
  with assms show False by (simp add: map_of_key_present)
qed


text \<open>
  Claim C1, as amended. The sample document of version 1.0.0 (two pharmacists, one
  day, no notes, saved at 2025-01-01T12:00:00.000Z) is accepted by validateSaveData whenever
  zod accepts its time stamp: the result is valid, has no error, returns the document as
  it was given (version 1.0.0, no metadata), and warns only when the clock makes the save
  older than six months. The target version of the facade is 1.0.0, so no migration runs.
\<close>

theorem sample_1_0_0_accepted_unchanged:
  assumes "zod_datetime e ''2025-01-01T12:00:00.000Z''"
  shows "validateSaveData e (JObj (sample_fields ''1.0.0'')) =
         \<lparr>isValid = True, errors = [],
          warnings = (if savedAt_stale e ''2025-01-01T12:00:00.000Z'' then [StaleSave] else []),
          data = Some (JObj (sample_fields ''1.0.0''))\<rparr>"
proof -
  have legacy: "SaveDataV1_0_0 e (JObj (sample_fields ''1.0.0''))"
    using assms
    by (simp add: SaveDataV1_0_0_def legacy_shape_def legacy_schedule_def z_object_def
        z_required_def z_string_def z_array_def z_record_def z_enum_def any_string_def
        MonthKeySchema_def is_digit_def sample_fields_def sample_body_def
        shift_morning_def shift_evening_def shift_afternoon_def name_qiu_def name_huang_def)
  have current: "SaveDataSchema e (JObj (sample_fields ''1.0.0''))"
    using assms
    by (simp add: SaveDataSchema_def ScheduleSchema_def NotesSchema_def ShiftSchema_def
        DateKeySchema_def z_object_def
        z_required_def z_string_def z_array_def z_record_def z_enum_def non_empty_def
        MonthKeySchema_def is_digit_def sample_fields_def sample_body_def
        shift_morning_def shift_evening_def shift_afternoon_def shift_overtime_def
        name_qiu_def name_huang_def)
  have lv: "legacy_isValid (validateLegacyData e (sample_fields ''1.0.0''))"
    using legacy by (simp add: validateLegacyData_def legacy_check_def sample_fields_def)
  have cur: "validateCurrent e (JObj (sample_fields ''1.0.0'')) =
         \<lparr>isValid = True, errors = [],
          warnings = (if savedAt_stale e ''2025-01-01T12:00:00.000Z'' then [StaleSave] else []),
          data = Some (JObj (sample_fields ''1.0.0''))\<rparr>"
    using current
    by (simp add: validateCurrent_def schedule_is_empty_def saved_too_long_ago_def
        sample_fields_def sample_body_def)
  show ?thesis
    using lv cur by (simp add: validateSaveData_def sample_fields_def)
qed

text \<open>
  The theorem at \<open>env0\<close>, whose clock is close to the save.
\<close>

theorem sample_1_0_0_accepted_unchanged_witness:
  "zod_datetime env0 ''2025-01-01T12:00:00.000Z''
   \<and> validateSaveData env0 (JObj (sample_fields ''1.0.0'')) =
       \<lparr>isValid = True, errors = [], warnings = [],
        data = Some (JObj (sample_fields ''1.0.0''))\<rparr>"
proof -
  have h: "zod_datetime env0 ''2025-01-01T12:00:00.000Z''"
    by (simp add: env0_def iso_datetime_def is_digit_def)
  show ?thesis
    using h sample_1_0_0_accepted_unchanged[OF h] by (simp add: env0_def)
qed

text \<open>
  Claim C1 as stated fails: the document returned is not the one migrated to 1.2.0
  (it has no metadata), and no warning speaks of an upgrade.
\<close>

theorem sample_1_0_0_not_upgraded:
  "data (validateSaveData env0 (JObj (sample_fields ''1.0.0'')))
     \<noteq> Some (JObj (migration_1_0_0_to_1_2_0 (sample_fields ''1.0.0'')))
   \<and> \<not> list_ex is_upgrade_warning
         (warnings (validateSaveData env0 (JObj (sample_fields ''1.0.0''))))"
  by code_simp

text \<open>
  Under the field names of the specification the sample document is rejected at the
  legacy stage, since every schema of the source requires \<open>currentMonth\<close>.
\<close>

lemma sample_spec_names_rejected:
  "\<not> isValid (validateSaveData e (JObj sample_spec_names))
   \<and> warnings (validateSaveData e (JObj sample_spec_names)) = []"
proof -
  have "\<not> SaveDataV1_0_0 e (JObj sample_spec_names)"
    by (simp add: SaveDataV1_0_0_def legacy_shape_def z_object_def z_required_def
        sample_spec_names_def)
  moreover have ver: "map_of sample_spec_names ''version'' = Some (JStr ''1.0.0'')"
    by (simp add: sample_spec_names_def)
  ultimately have "\<not> legacy_isValid (validateLegacyData e sample_spec_names)"
    by (simp add: validateLegacyData_def legacy_check_def)
  moreover from ver have "''version'' \<in> fst ` set sample_spec_names"
    by (simp add: map_of_key_present)
  ultimately show ?thesis
    by (simp add: validateSaveData_def)
qed

text \<open>
  Claim C2 on the code: the sample document without a \<open>version\<close> field is rejected,
  while the same document declaring version 1.0.0 is accepted. The facade enters the
  legacy stage only when the key \<open>version\<close> is present; otherwise the strict current
  schema, which requires the field, decides.
\<close>

theorem sample_without_version_rejected:
  "\<not> isValid (validateSaveData env0 (JObj sample_body))
   \<and> isValid (validateSaveData env0 (JObj (sample_fields ''1.0.0'')))"
  by code_simp

text \<open>
  Claim C3, as amended. Every document declaring version 2.0.0 is rejected by
  validateSaveData with exactly one error and no warning; the error is the facade's
  legacy-format error around "unsupported version: 2.0.0". loadFromFile hands the same
  error on with \<open>success = False\<close>; checkVersionCompatibility is not reached.
\<close>

theorem version_2_0_0_legacy_error:
  assumes "map_of kvs ''version'' = Some (JStr ''2.0.0'')"
  shows "validateSaveData e (JObj kvs) =
           \<lparr>isValid = False, errors = [LegacyFormatError [UnsupportedVersion ''2.0.0'']],
            warnings = [], data = None\<rparr>
         \<and> (JSON_parse e text = Some (JObj kvs) \<longrightarrow>
              loadFromFile e text =
                \<lparr>success = False, load_data = None,
                 load_errors = [LegacyFormatError [UnsupportedVersion ''2.0.0'']],
                 load_warnings = []\<rparr>)"
proof -
  have v: "validateSaveData e (JObj kvs) =
           \<lparr>isValid = False, errors = [LegacyFormatError [UnsupportedVersion ''2.0.0'']],
            warnings = [], data = None\<rparr>"
    using assms by (intro unsupported_version) simp_all
  then show ?thesis by (simp add: loadFromFile_def)
qed

text \<open>
  The theorem at the sample document with version 2.0.0, read from a file.
\<close>

theorem version_2_0_0_legacy_error_witness:
  "map_of (sample_fields ''2.0.0'') ''version'' = Some (JStr ''2.0.0'')
   \<and> JSON_parse (env_reading (JObj (sample_fields ''2.0.0''))) ''{}''
       = Some (JObj (sample_fields ''2.0.0''))
   \<and> \<not> isValid (validateSaveData (env_reading (JObj (sample_fields ''2.0.0'')))
                   (JObj (sample_fields ''2.0.0'')))
   \<and> \<not> success (loadFromFile (env_reading (JObj (sample_fields ''2.0.0''))) ''{}'')"
proof -
  have h: "map_of (sample_fields ''2.0.0'') ''version'' = Some (JStr ''2.0.0'')"
    by (simp add: sample_fields_def)
  have p: "JSON_parse (env_reading (JObj (sample_fields ''2.0.0''))) ''{}''
       = Some (JObj (sample_fields ''2.0.0''))"
    by (simp add: env_reading_def)
  show ?thesis
    using h p version_2_0_0_legacy_error[OF h, of "env_reading (JObj (sample_fields ''2.0.0''))" "''{}''"]
    by simp
qed

text \<open>
  Claim C3 as stated fails in the kind of the error: the one error is no
  version-incompatible message.
\<close>

theorem version_2_0_0_error_not_incompatible:
  "errors (validateSaveData env0 (JObj (sample_fields ''2.0.0'')))
     = [LegacyFormatError [UnsupportedVersion ''2.0.0'']]
   \<and> \<not> list_ex is_version_incompatible
         (errors (validateSaveData env0 (JObj (sample_fields ''2.0.0''))))"
  by code_simp

text \<open>
  Claim C7, as amended. When the version field of the document is a non-empty string
  equal to the target version, migrateToLatest succeeds and returns the document as it is.
\<close>

theorem migrate_same_version_identity:
  assumes "map_of d ''version'' = Some (JStr t)" and "t \<noteq> []"
  shows "migrateToLatest e d t = Inr d"
  using assms by (simp add: migrateToLatest_def resolve_version_def)

text \<open>
  The theorem at the sample document of version 1.2.0 and the target 1.2.0.
\<close>

theorem migrate_same_version_identity_witness:
  "map_of (sample_fields ''1.2.0'') ''version'' = Some (JStr ''1.2.0'') \<and> ''1.2.0'' \<noteq> []
   \<and> migrateToLatest env0 (sample_fields ''1.2.0'') ''1.2.0'' = Inr (sample_fields ''1.2.0'')"
proof -
  have h: "map_of (sample_fields ''1.2.0'') ''version'' = Some (JStr ''1.2.0'')"
    by (simp add: sample_fields_def)
  have n: "''1.2.0'' \<noteq> []" by simp
  show ?thesis using h migrate_same_version_identity[OF h n, of env0] by simp
qed

text \<open>
  Claim C7 as stated fails for the empty version string with the empty target: the
  source reads an empty version as 1.0.0 (\<open>data.version || '1.0.0'\<close>) and reports a
  downgrade.
\<close>

theorem migrate_empty_version_fails:
  "map_of [(''version'', JStr [])] ''version'' = Some (JStr [])
   \<and> migrateToLatest env0 [(''version'', JStr [])] [] = Inl (Downgrade ''1.0.0'' [])"
  by code_simp

text \<open>
  The function on the store: what it allocates leaves every object that was there as it
  was, and its result is the result of the function on the fields of the document.
\<close>

lemma migration_steps_lookup:
  "map_of migration_steps (cur @ CHR ''-'' # CHR ''>'' # tgt) =
     (if cur = ''1.0.0'' \<and> tgt = ''1.1.0'' then Some [migration_1_0_0_to_1_1_0]
      else if cur = ''1.1.0'' \<and> tgt = ''1.2.0'' then Some [migration_1_1_0_to_1_2_0]
      else if cur = ''1.0.0'' \<and> tgt = ''1.2.0''
      then Some [migration_1_0_0_to_1_1_0, migration_1_1_0_to_1_2_0]
      else None)"
  by (simp add: migration_steps_def arrow_key_1_1 arrow_key_1_2 arrow_key_0_2)

lemma allocate_keeps:
  "allocate fs s = (a', s') \<Longrightarrow> b < next_free s \<Longrightarrow>
   objects s' b = objects s b \<and> next_free s \<le> next_free s'"
  by (auto simp: allocate_def)

lemma run_steps_keeps:
  "run_steps steps a s = (a', s') \<Longrightarrow> b < next_free s \<Longrightarrow>
   objects s' b = objects s b"
proof (induction steps arbitrary: a s)
  case Nil
  then show ?case by simp
next
  case (Cons step steps)
  show ?case
  proof (cases "objects s a")
    case None
    with Cons.prems show ?thesis by simp
  next
    case (Some d)
    obtain a1 s1 where al: "allocate (step d) s = (a1, s1)" by (cases "allocate (step d) s")
    with Some Cons.prems have run: "run_steps steps a1 s1 = (a', s')" by simp
    from allocate_keeps[OF al Cons.prems(2)]
    have k: "objects s1 b = objects s b" and le: "next_free s \<le> next_free s1" by simp_all
    from le Cons.prems(2) have "b < next_free s1" by simp
    from Cons.IH[OF run this] k show ?thesis by simp
  qed
qed

lemma store_result_cases:
  assumes "migrateToLatest_store e s a t = (r, s')"
  shows "s' = s \<or> (\<exists>steps a'. run_steps steps a s = (a', s'))"
proof (cases "objects s a")
  case None
  with assms show ?thesis by (simp add: migrateToLatest_store_def)
next
  case (Some d)
  show ?thesis
  proof (cases "resolve_version d = JStr t")
    case True
    with Some assms show ?thesis by (simp add: migrateToLatest_store_def)
  next
    case False
    show ?thesis
    proof (cases "js_String e (resolve_version d)")
      case None
      with False Some assms show ?thesis by (simp add: migrateToLatest_store_def)
    next
      case cur: (Some cur)
      define k where "k = cur @ ''->'' @ t"
      show ?thesis
      proof (cases "map_of migration_steps k")
        case (Some steps)
        with False \<open>objects s a = Some d\<close> cur assms
        have "run_steps steps a s = (case r of Inr a' \<Rightarrow> a' | Inl x \<Rightarrow> a, s')"
          by (auto simp: migrateToLatest_store_def k_def split: prod.splits)
        then show ?thesis by blast
      next
        case None
        show ?thesis
        proof (cases "resolve_version d")
          case (JStr current)
          let ?two = "[migration_1_0_0_to_1_1_0, migration_1_1_0_to_1_2_0]"
          from None False \<open>objects s a = Some d\<close> cur assms JStr
          have "s' = s \<or> run_steps ?two a s = (case r of Inr a' \<Rightarrow> a' | Inl x \<Rightarrow> a, s')"
            by (auto simp: migrateToLatest_store_def k_def simp del: run_steps.simps
                split: prod.splits if_splits)
          then show ?thesis by blast
        qed (use None False \<open>objects s a = Some d\<close> cur assms in
              \<open>simp_all add: migrateToLatest_store_def k_def\<close>)
      qed
    qed
  qed
qed

lemma store_never_overwritten:
  assumes "migrateToLatest_store e s a t = (r, s')" and "b < next_free s"
  shows "objects s' b = objects s b"
  using store_result_cases[OF assms(1)] assms(2) run_steps_keeps by blast

lemma table_steps:
  "case map_of migration_steps k of
     None \<Rightarrow> map_of migrations k = None
   | Some steps \<Rightarrow>
      (\<exists>f. map_of migrations k = Some f
           \<and> (\<forall>d s a. objects s a = Some d \<longrightarrow>
                 (\<exists>a' s'. run_steps steps a s = (a', s') \<and> objects s' a' = Some (f d))))"
  by (simp add: migration_steps_def migrations_def migration_1_0_0_to_1_2_0_def allocate_def)

lemma store_agrees:
  assumes d: "objects s a = Some d"
  shows "case migrateToLatest_store e s a t of
           (Inl err, s') \<Rightarrow> migrateToLatest e d t = Inl err
         | (Inr a', s') \<Rightarrow> (case objects s' a' of
                              None \<Rightarrow> False
                            | Some d' \<Rightarrow> migrateToLatest e d t = Inr d')"
proof (cases "resolve_version d = JStr t")
  case True
  with d show ?thesis by (simp add: migrateToLatest_store_def migrateToLatest_def)
next
  case False
  show ?thesis
  proof (cases "js_String e (resolve_version d)")
    case None
    with False d show ?thesis by (simp add: migrateToLatest_store_def migrateToLatest_def)
  next
    case cur: (Some cur)
    define k where "k = cur @ ''->'' @ t"
    show ?thesis
    proof (cases "map_of migration_steps k")
      case (Some steps)
      with table_steps[of k] d obtain f a' s' where
        f: "map_of migrations k = Some f"
        and run: "run_steps steps a s = (a', s')" "objects s' a' = Some (f d)"
        by fastforce
      from False d cur Some f run show ?thesis
        by (simp add: migrateToLatest_store_def migrateToLatest_def k_def)
    next
      case None
      with table_steps[of k] have nk: "map_of migrations k = None" by simp
      show ?thesis
      proof (cases "resolve_version d")
        case (JStr current)
        with cur have cc: "cur = current" by (simp add: js_String_def)
        have not_both: "\<not> (current = ''1.0.0'' \<and> t = ''1.2.0'')"
          using nk by (auto simp: k_def cc migrations_def)
        have store_eq: "migrateToLatest_store e s a t =
              (if js_gt (compareVersions (parseVersion e current) (parseVersion e t)) (Fin 0)
               then (Inl (Downgrade current t), s)
               else (Inl (NoMigrationPath current t), s))"
          using None False d cur JStr not_both
          by (auto simp: migrateToLatest_store_def k_def Let_def simp del: run_steps.simps)
        have pure_eq: "migrateToLatest e d t =
              (if js_gt (compareVersions (parseVersion e current) (parseVersion e t)) (Fin 0)
               then Inl (Downgrade current t)
               else Inl (NoMigrationPath current t))"
          using nk False cur JStr not_both
          by (auto simp: migrateToLatest_def k_def Let_def)
        show ?thesis by (simp add: store_eq pure_eq)
      qed (use None nk False d cur in
            \<open>simp_all add: migrateToLatest_store_def migrateToLatest_def k_def\<close>)
    qed
  qed
qed

text \<open>
  Claim C8, as amended. When the version of the document is a string whose major number,
  as parseVersion reads it, is greater than the major number of the target, migrateToLatest
  fails with the downgrade error (naming 1.0.0 when the version string is empty) and
  leaves the store as it was: neither the document nor any other object is written.
\<close>

theorem migrate_newer_major_downgrade:
  assumes d: "objects s a = Some d"
    and v: "map_of d ''version'' = Some (JStr v)"
    and gt: "js_gt (major (parseVersion e v)) (major (parseVersion e t))"
  shows "migrateToLatest_store e s a t
           = (Inl (Downgrade (if v = [] then ''1.0.0'' else v) t), s)
         \<and> migrateToLatest e d t = Inl (Downgrade (if v = [] then ''1.0.0'' else v) t)"
proof -
  define cur where "cur = (if v = [] then ''1.0.0'' else v)"
  have res: "resolve_version d = JStr cur"
    using v by (simp add: resolve_version_def cur_def)
  have gt': "js_gt (major (parseVersion e cur)) (major (parseVersion e t))"
  proof (cases "v = []")
    case True
    with gt have "js_gt (Fin 0) (major (parseVersion e t))" by (simp add: major_empty)
    then have "js_gt (Fin 1) (major (parseVersion e t))" by (rule js_gt_zero_one)
    with True show ?thesis by (simp add: cur_def parse_1_0_0)
  next
    case False
    with gt show ?thesis by (simp add: cur_def)
  qed
  have ne: "cur \<noteq> t"
    using gt' js_gt_irrefl by auto
  have majors: "\<not> (major (parseVersion e cur) = Fin 1 \<and> major (parseVersion e t) = Fin 1)"
    using gt' by auto
  have nokey: "map_of migrations (cur @ ''->'' @ t) = None"
    using majors by (auto simp: migrations_lookup parse_1_0_0 parse_1_1_0 parse_1_2_0)
  have nosteps: "map_of migration_steps (cur @ ''->'' @ t) = None"
    using majors by (auto simp: migration_steps_lookup parse_1_0_0 parse_1_1_0 parse_1_2_0)
  have cmp: "js_gt (compareVersions (parseVersion e cur) (parseVersion e t)) (Fin 0)"
    using gt' by (rule compareVersions_major)
  have pure: "migrateToLatest e d t = Inl (Downgrade cur t)"
    unfolding migrateToLatest_def Let_def res
    using ne nokey cmp by (simp add: js_String_def)
  have stored: "migrateToLatest_store e s a t = (Inl (Downgrade cur t), s)"
    unfolding migrateToLatest_store_def Let_def
    using d res ne nosteps cmp by (simp add: js_String_def)
  show ?thesis using pure stored by (simp add: cur_def)
qed

text \<open>
  The theorem at the sample document of version 2.0.0 and the target 1.2.0.
\<close>

theorem migrate_newer_major_downgrade_witness:
  "objects (sample_store (sample_fields ''2.0.0'')) 0 = Some (sample_fields ''2.0.0'')
   \<and> map_of (sample_fields ''2.0.0'') ''version'' = Some (JStr ''2.0.0'')
   \<and> js_gt (major (parseVersion env0 ''2.0.0'')) (major (parseVersion env0 ''1.2.0''))
   \<and> migrateToLatest_store env0 (sample_store (sample_fields ''2.0.0'')) 0 ''1.2.0''
       = (Inl (Downgrade ''2.0.0'' ''1.2.0''), sample_store (sample_fields ''2.0.0''))"
proof -
  have o: "objects (sample_store (sample_fields ''2.0.0'')) 0 = Some (sample_fields ''2.0.0'')"
    by (simp add: sample_store_def)
  have h: "map_of (sample_fields ''2.0.0'') ''version'' = Some (JStr ''2.0.0'')"
    by (simp add: sample_fields_def)
  have g: "js_gt (major (parseVersion env0 ''2.0.0'')) (major (parseVersion env0 ''1.2.0''))"
    by (simp add: parseVersion_def js_Number_def elem_or_def is_digit_def decimal_value_def
        Let_def)
  show ?thesis using o h g migrate_newer_major_downgrade[OF o h g] by simp
qed

text \<open>
  Claim C8 as stated fails for a version that is no string: with the number 2 as version
  and the target 1.2.0 the key \<open>2->1.2.0\<close> is not registered, \<open>version.split\<close> is no
  function, and the result is the error of the \<open>catch\<close> branch, not the downgrade error.
\<close>

theorem migrate_numeric_version_exception:
  "map_of ((''version'', JNum (Fin 2)) # sample_body) ''version'' = Some (JNum (Fin 2))
   \<and> js_String env_number_2 (JNum (Fin 2)) = Some ''2''
   \<and> migrateToLatest env_number_2 ((''version'', JNum (Fin 2)) # sample_body) ''1.2.0''
       = Inl MigrationException"
  by code_simp

text \<open>
  Claim C9 on the code: with the empty string in the slot, which no parser accepts,
  loadAutoSave fails, leaves the store as it is, and hasAutoSave still holds afterwards.
  The test \<open>!saved\<close> takes the empty string for a missing entry.
\<close>

theorem empty_snapshot_not_cleared:
  "JSON_parse env0 [] = None
   \<and> \<not> success (fst (loadAutoSave env0 [AUTO_SAVE_KEY \<mapsto> []]))
   \<and> snd (loadAutoSave env0 [AUTO_SAVE_KEY \<mapsto> []]) = [AUTO_SAVE_KEY \<mapsto> []]
   \<and> hasAutoSave (snd (loadAutoSave env0 [AUTO_SAVE_KEY \<mapsto> []]))"
  by (simp add: loadAutoSave_def hasAutoSave_def getItem_def env0_def)

lemma broken_snapshot_cleared:
  assumes "getItem ls AUTO_SAVE_KEY = Some saved" and "saved \<noteq> []"
    and "JSON_parse e saved = None
         \<or> (\<exists>doc. JSON_parse e saved = Some doc \<and> \<not> isValid (validateSaveData e doc))"
  shows "\<not> success (fst (loadAutoSave e ls)) \<and> \<not> hasAutoSave (snd (loadAutoSave e ls))"
  using assms
  by (auto simp: loadAutoSave_def hasAutoSave_def getItem_def removeItem_def Let_def)

text \<open>
  The theorem at the sample document of version 1.0.0, which is valid.
\<close>

theorem valid_only_version_1_0_0_witness:
  "isValid (validateSaveData env0 (JObj (sample_fields ''1.0.0'')))
   \<and> map_of (sample_fields ''1.0.0'') ''version'' = Some (JStr ''1.0.0'')
   \<and> SaveDataSchema env0 (JObj (sample_fields ''1.0.0''))
   \<and> \<not> list_ex is_upgrade_warning
         (warnings (validateSaveData env0 (JObj (sample_fields ''1.0.0''))))"
proof -
  have v: "isValid (validateSaveData env0 (JObj (sample_fields ''1.0.0'')))"
    by code_simp
  show ?thesis
    using v valid_only_version_1_0_0[of env0 "JObj (sample_fields ''1.0.0'')"] by auto
qed

text \<open>
  Claim C6. getRequiredShifts depends on the weekday alone: Monday 2, 2, 2 with cap 2;
  Tuesday to Friday 1, 1, 2 without cap; Saturday 2, 1, 1 without cap; Sunday 0, 0, 0.
\<close>

theorem getRequiredShifts_table:
  "getRequiredShifts (d\<lparr>dayOfWeek := 1\<rparr>)
     = \<lparr>morning = 2, afternoon = 2, evening = 2, maxPerPerson = Some 2\<rparr>
   \<and> getRequiredShifts (d\<lparr>dayOfWeek := 2\<rparr>)
     = \<lparr>morning = 1, afternoon = 1, evening = 2, maxPerPerson = None\<rparr>
   \<and> getRequiredShifts (d\<lparr>dayOfWeek := 3\<rparr>)
     = \<lparr>morning = 1, afternoon = 1, evening = 2, maxPerPerson = None\<rparr>
   \<and> getRequiredShifts (d\<lparr>dayOfWeek := 4\<rparr>)
     = \<lparr>morning = 1, afternoon = 1, evening = 2, maxPerPerson = None\<rparr>
   \<and> getRequiredShifts (d\<lparr>dayOfWeek := 5\<rparr>)
     = \<lparr>morning = 1, afternoon = 1, evening = 2, maxPerPerson = None\<rparr>
   \<and> getRequiredShifts (d\<lparr>dayOfWeek := 6\<rparr>)
     = \<lparr>morning = 2, afternoon = 1, evening = 1, maxPerPerson = None\<rparr>
   \<and> getRequiredShifts (d\<lparr>dayOfWeek := 0\<rparr>)
     = \<lparr>morning = 0, afternoon = 0, evening = 0, maxPerPerson = None\<rparr>
   \<and> getRequiredShifts (d\<lparr>dateKey := k, monthNumber := m, dayOfMonth := n\<rparr>)
     = getRequiredShifts d"
  by (simp add: getRequiredShifts_def)

section \<open>Statistics and violations\<close>

text \<open>
  For names that are no members of \<open>Object.prototype\<close> every read finds the listed entry
  or none, nothing throws, and for distinct pharmacists the object \<open>stats\<close> lists them
  in order, each with the statistics of its own days: the tracked quantities.
\<close>

lemma ordinary_member: "ordinary_name p \<Longrightarrow> map_of object_prototype p = None"
  by (simp add: ordinary_name_def map_of_eq_None_iff)

lemma ordinary_lookup:
  "ordinary_name p \<Longrightarrow> shifts_on roster d p = Listed (listed_shifts roster d p)"
  by (simp add: ordinary_member shifts_on_def listed_shifts_def split: option.splits)

lemma ordinary_not_proto: "ordinary_name p \<Longrightarrow> p \<noteq> ''__proto__''"
  by (auto simp: ordinary_name_def object_prototype_def)

lemma count_day_listed: "count_day dow (Listed ss) st = Some (count_listed dow ss st)"
  by (simp add: count_day_def count_listed_def entry_length_def)

lemma update_fresh: "k \<notin> fst ` set al \<Longrightarrow> AList.update k v al = al @ [(k, v)]"
  by (induction al) auto

lemma init_stats_gen:
  "distinct ps \<Longrightarrow> list_all ordinary_name ps \<Longrightarrow> set ps \<inter> fst ` set al = {} \<Longrightarrow>
   fold (\<lambda>p. stats_put p z) ps \<lparr>own_stats = al, proto_stats = None\<rparr>
   = \<lparr>own_stats = al @ map (\<lambda>p. (p, z)) ps, proto_stats = None\<rparr>"
proof (induction ps arbitrary: al)
  case Nil
  then show ?case by simp
next
  case (Cons p ps)
  from Cons.prems have fresh: "p \<notin> fst ` set al" and np: "p \<noteq> ''__proto__''"
    by (auto dest: ordinary_not_proto)
  then have step: "stats_put p z \<lparr>own_stats = al, proto_stats = None\<rparr>
                   = \<lparr>own_stats = al @ [(p, z)], proto_stats = None\<rparr>"
    by (simp add: stats_put_def update_fresh)
  have "set ps \<inter> fst ` set (al @ [(p, z)]) = {}"
    using Cons.prems by auto
  with Cons have "fold (\<lambda>p. stats_put p z) ps \<lparr>own_stats = al @ [(p, z)], proto_stats = None\<rparr>
                  = \<lparr>own_stats = (al @ [(p, z)]) @ map (\<lambda>p. (p, z)) ps, proto_stats = None\<rparr>"
    by simp
  with step show ?case by simp
qed

lemma init_stats:
  "distinct ps \<Longrightarrow> list_all ordinary_name ps \<Longrightarrow>
   fold (\<lambda>p. stats_put p z) ps \<lparr>own_stats = [], proto_stats = None\<rparr> = stats_table (\<lambda>p. z) ps"
  using init_stats_gen[of ps "[]" z] by (simp add: stats_table_def)

lemma lookup_table: "w \<in> set ps \<Longrightarrow> map_of (map (\<lambda>p. (p, h p)) ps) w = Some (h w)"
  by (induction ps) auto

lemma update_table:
  "k \<in> set qs \<Longrightarrow> distinct qs \<Longrightarrow>
   AList.update k (f (g k)) (map (\<lambda>p. (p, g p)) qs)
   = map (\<lambda>p. (p, if p = k then f (g p) else g p)) qs"
proof (induction qs)
  case Nil
  then show ?case by simp
next
  case (Cons q qs)
  show ?case
  proof (cases "q = k")
    case True
    with Cons.prems have "k \<notin> set qs" by simp
    then have "map (\<lambda>p. (p, if p = k then f (g p) else g p)) qs = map (\<lambda>p. (p, g p)) qs"
      by (intro map_cong) auto
    with True show ?thesis by simp
  next
    case False
    with Cons show ?thesis by simp
  qed
qed

lemma count_pharmacist_table:
  assumes "ordinary_name p" and "p \<in> set qs" and "distinct qs"
  shows "count_pharmacist roster d p (stats_table g qs)
         = Some (stats_table
                   (\<lambda>q. if q = p then count_listed (dayOfWeek d) (listed_shifts roster d q) (g q)
                        else g q) qs)"
proof -
  have np: "p \<noteq> ''__proto__''" using assms(1) by (rule ordinary_not_proto)
  have get: "stats_get (stats_table g qs) p = Some (g p)"
    using np assms(2) by (simp add: stats_get_def stats_table_def lookup_table)
  have put: "stats_put p (count_listed (dayOfWeek d) (listed_shifts roster d p) (g p))
               (stats_table g qs)
             = stats_table
                 (\<lambda>q. if q = p then count_listed (dayOfWeek d) (listed_shifts roster d p) (g q)
                      else g q) qs"
    using np assms(2,3)
    by (simp add: stats_put_def stats_table_def
        update_table[of p qs "count_listed (dayOfWeek d) (listed_shifts roster d p)" g])
  have same: "(\<lambda>q. if q = p then count_listed (dayOfWeek d) (listed_shifts roster d p) (g q)
                      else g q)
              = (\<lambda>q. if q = p then count_listed (dayOfWeek d) (listed_shifts roster d q) (g q)
                      else g q)"
    by auto
  show ?thesis
    using get put
    by (simp add: count_pharmacist_def ordinary_lookup[OF assms(1)] count_day_listed same)
qed

lemma day_fold_table:
  assumes "distinct qs"
  shows "distinct ps \<Longrightarrow> list_all ordinary_name ps \<Longrightarrow> set ps \<subseteq> set qs \<Longrightarrow>
   for_each (count_pharmacist roster d) ps (stats_table g qs)
   = Some (stats_table
             (\<lambda>q. if q \<in> set ps
                  then count_listed (dayOfWeek d) (listed_shifts roster d q) (g q) else g q) qs)"
proof (induction ps arbitrary: g)
  case Nil
  then show ?case by simp
next
  case (Cons a ps)
  let ?f = "\<lambda>q. count_listed (dayOfWeek d) (listed_shifts roster d q)"
  let ?g' = "\<lambda>q. if q = a then ?f q (g q) else g q"
  from Cons.prems have a: "ordinary_name a" "a \<in> set qs" "a \<notin> set ps" by auto
  have "for_each (count_pharmacist roster d) (a # ps) (stats_table g qs)
        = for_each (count_pharmacist roster d) ps (stats_table ?g' qs)"
    using count_pharmacist_table[OF a(1,2) assms, of roster d g] by simp
  also have "\<dots> = Some (stats_table (\<lambda>q. if q \<in> set ps then ?f q (?g' q) else ?g' q) qs)"
    using Cons by simp
  also have "(\<lambda>q. if q \<in> set ps then ?f q (?g' q) else ?g' q)
             = (\<lambda>q. if q \<in> set (a # ps) then ?f q (g q) else g q)"
    using a(3) by auto
  finally show ?case .
qed

lemma month_fold_table:
  assumes "distinct ps" and "list_all ordinary_name ps"
  shows "for_each (\<lambda>day. for_each (count_pharmacist roster day) ps) days (stats_table g ps)
         = Some (stats_table (\<lambda>p. worker_stats days roster p (g p)) ps)"
proof (induction days arbitrary: g)
  case Nil
  then show ?case by (simp add: worker_stats_def)
next
  case (Cons d days)
  let ?f = "\<lambda>p. count_listed (dayOfWeek d) (listed_shifts roster d p)"
  have "stats_table (\<lambda>q. if q \<in> set ps then ?f q (g q) else g q) ps
        = stats_table (\<lambda>q. ?f q (g q)) ps"
    by (simp add: stats_table_def)
  then have step: "for_each (count_pharmacist roster d) ps (stats_table g ps)
                   = Some (stats_table (\<lambda>p. ?f p (g p)) ps)"
    using day_fold_table[OF assms(1) assms(1) assms(2), of roster d g] by simp
  show ?case
    using Cons.IH[of "\<lambda>p. ?f p (g p)"] step by (simp add: worker_stats_def)
qed

lemma calculateStats_table:
  "distinct ps \<Longrightarrow> list_all ordinary_name ps \<Longrightarrow>
   calculateStats days roster ps
   = Some (stats_table (\<lambda>p. worker_stats days roster p zero_stats) ps)"
  unfolding calculateStats_def by (simp add: init_stats month_fold_table)

lemma worker_stats_fields:
  "holidays (worker_stats days roster w st) = holidays st + tracked DaysOff days roster w"
  "shifts (worker_stats days roster w st) = shifts st + tracked TotalPeriods days roster w"
  "morningEveningDays (worker_stats days roster w st)
     = morningEveningDays st + tracked MorningEveningDayCount days roster w"
  "mondayHolidays (worker_stats days roster w st)
     = mondayHolidays st + tracked HeavyWeekdayOff days roster w"
  "saturdayHolidays (worker_stats days roster w st)
     = saturdayHolidays st + tracked WeekendOff days roster w"
  by (induction days arbitrary: st; simp add: worker_stats_def count_listed_def)+

lemma stat_field_tracked:
  "stat_field q (worker_stats days roster w zero_stats) = tracked q days roster w"
  by (cases q) (simp_all add: worker_stats_fields zero_stats_def)

lemma average_of_table:
  "average_of (stat_field q) (stats_table (\<lambda>p. worker_stats days roster p zero_stats) ps)
   = of_nat (total_of q days roster ps) / 4"
  by (simp add: average_of_def stats_table_def total_of_def comp_def stat_field_tracked)

lemma balance_check_member:
  "fairness_violation q w \<in> set (balance_check stats p s)
   \<longleftrightarrow> p = w \<and> \<bar>of_nat (stat_field q s) - average_of (stat_field q) stats\<bar> > threshold q"
  by (cases q) (auto simp: balance_check_def)

lemma balance_check_fairness:
  "v \<in> set (balance_check stats p s) \<Longrightarrow> \<exists>q. v = fairness_violation q p"
proof -
  assume "v \<in> set (balance_check stats p s)"
  then have "v = fairness_violation DaysOff p \<or> v = fairness_violation TotalPeriods p
      \<or> v = fairness_violation MorningEveningDayCount p
      \<or> v = fairness_violation HeavyWeekdayOff p \<or> v = fairness_violation WeekendOff p"
    by (auto simp: balance_check_def split: if_splits)
  then show ?thesis by blast
qed

lemma balance_member:
  assumes "list_all ordinary_name ps"
  shows "fairness_violation q w
           \<in> set (balance_violations
                    (stats_table (\<lambda>p. worker_stats days roster p zero_stats) ps) ps)
         \<longleftrightarrow> w \<in> set ps \<and> deviates_from_quarter q days roster ps w"
proof -
  let ?stats = "stats_table (\<lambda>p. worker_stats days roster p zero_stats) ps"
  have look: "stats_get ?stats p = Some (worker_stats days roster p zero_stats)"
    if "p \<in> set ps" for p
  proof -
    from that assms have "p \<noteq> ''__proto__''"
      by (auto simp: list_all_iff dest: ordinary_not_proto)
    with that show ?thesis by (simp add: stats_get_def stats_table_def lookup_table)
  qed
  have "fairness_violation q w \<in> set (balance_violations ?stats ps)
        \<longleftrightarrow> (\<exists>p \<in> set ps. fairness_violation q w
                \<in> set (balance_check ?stats p (worker_stats days roster p zero_stats)))"
    by (auto simp: balance_violations_def look)
  also have "\<dots> \<longleftrightarrow> w \<in> set ps \<and> deviates_from_quarter q days roster ps w"
    by (auto simp: balance_check_member average_of_table stat_field_tracked
        deviates_from_quarter_def)
  finally show ?thesis .
qed

lemma balance_all_fairness:
  "v \<in> set (balance_violations stats ps) \<Longrightarrow> \<exists>q w. w \<in> set ps \<and> v = fairness_violation q w"
proof -
  assume "v \<in> set (balance_violations stats ps)"
  then obtain p s where "p \<in> set ps" and "v \<in> set (balance_check stats p s)"
    by (auto simp: balance_violations_def split: option.splits)
  then show ?thesis using balance_check_fairness by blast
qed

lemma fairness_is_fairness: "is_fairness_violation (fairness_violation q w)"
  by (cases q) (simp_all add: is_fairness_violation_def)


lemma count_including_listed:
  "list_all ordinary_name ps \<Longrightarrow>
   count_including x (map (shifts_on roster d) ps)
   = Some (length (filter (\<lambda>p. x \<in> set (listed_shifts roster d p)) ps))"
  by (induction ps) (simp_all add: ordinary_lookup entry_includes_def)

lemma period_check_listed:
  assumes "list_all ordinary_name ps"
  shows "\<exists>vs. period_check roster ps d x r = Some vs
              \<and> list_all (\<lambda>v. \<not> is_fairness_violation v) vs
              \<and> (length (filter (\<lambda>p. x \<in> set (listed_shifts roster d p)) ps) = r \<longrightarrow> vs = [])"
  by (simp add: period_check_def count_including_listed[OF assms] is_fairness_violation_def)

lemma monday_check_not_fairness:
  "list_all (\<lambda>v. \<not> is_fairness_violation v) (monday_check roster ps d)"
  by (auto simp: monday_check_def list_all_iff is_fairness_violation_def)

lemma monday_check_within:
  assumes "list_all ordinary_name ps"
    and "list_all (\<lambda>w. length (listed_shifts roster d w) \<le> 2) ps"
  shows "monday_check roster ps d = []"
  using assms
  by (auto simp: monday_check_def list_all_iff ordinary_lookup entry_length_def)

lemma day_violations_listed:
  assumes "list_all ordinary_name ps"
  shows "\<exists>vs. day_violations roster ps d = Some vs
              \<and> list_all (\<lambda>v. \<not> is_fairness_violation v) vs"
proof (cases "dayOfWeek d = 0")
  case True
  then show ?thesis by (simp add: day_violations_def)
next
  case False
  obtain v1 where v1: "period_check roster ps d Morning (morning (getRequiredShifts d)) = Some v1"
    "list_all (\<lambda>v. \<not> is_fairness_violation v) v1"
    using period_check_listed[OF assms] by blast
  obtain v2 where v2: "period_check roster ps d Afternoon (afternoon (getRequiredShifts d)) = Some v2"
    "list_all (\<lambda>v. \<not> is_fairness_violation v) v2"
    using period_check_listed[OF assms] by blast
  obtain v3 where v3: "period_check roster ps d Evening (evening (getRequiredShifts d)) = Some v3"
    "list_all (\<lambda>v. \<not> is_fairness_violation v) v3"
    using period_check_listed[OF assms] by blast
  show ?thesis
    using False v1 v2 v3 monday_check_not_fairness[of roster ps d]
    by (simp add: day_violations_def Let_def)
qed

lemma staffed_day_clean:
  assumes "distinct ps" and "list_all ordinary_name ps"
    and "dayOfWeek d = 0 \<or> staffed_as_required roster ps d"
  shows "day_violations roster ps d = Some []"
proof (cases "dayOfWeek d = 0")
  case True
  then show ?thesis by (simp add: day_violations_def)
next
  case False
  with assms have st: "staffed_as_required roster ps d" by simp
  have cnt: "length (filter (\<lambda>w. p \<in> set (listed_shifts roster d w)) ps) = assigned_count roster ps d p"
    for p using assms(1) by (simp add: assigned_count_def distinct_remdups_id)
  have periods: "period_check roster ps d Morning (morning (getRequiredShifts d)) = Some []"
    "period_check roster ps d Afternoon (afternoon (getRequiredShifts d)) = Some []"
    "period_check roster ps d Evening (evening (getRequiredShifts d)) = Some []"
    using st
    by (simp_all add: period_check_def count_including_listed[OF assms(2)] cnt
        staffed_as_required_def)
  have monday: "monday_check roster ps d = []" if "dayOfWeek d = 1"
  proof -
    from that have "maxPerPerson (getRequiredShifts d) = Some 2"
      by (simp add: getRequiredShifts_def)
    with st have "list_all (\<lambda>w. length (listed_shifts roster d w) \<le> 2) ps"
      by (simp add: staffed_as_required_def within_cap_def)
    with assms(2) show ?thesis by (rule monday_check_within)
  qed
  show ?thesis
    using False periods monday by (simp add: day_violations_def Let_def)
qed

lemma days_loop_listed:
  assumes "list_all ordinary_name ps"
  shows "\<exists>vs. for_each (\<lambda>day found. map_option (\<lambda>pushed. found @ pushed)
                                     (day_violations roster ps day)) days acc
               = Some (acc @ vs)
              \<and> list_all (\<lambda>v. \<not> is_fairness_violation v) vs"
proof (induction days arbitrary: acc)
  case Nil
  then show ?case by simp
next
  case (Cons d days)
  obtain v where v: "day_violations roster ps d = Some v"
    "list_all (\<lambda>v. \<not> is_fairness_violation v) v"
    using day_violations_listed[OF assms] by blast
  obtain vs where vs: "for_each (\<lambda>day found. map_option (\<lambda>pushed. found @ pushed)
                                     (day_violations roster ps day)) days (acc @ v)
               = Some ((acc @ v) @ vs)"
    "list_all (\<lambda>v. \<not> is_fairness_violation v) vs"
    using Cons.IH[of "acc @ v"] by blast
  have "for_each (\<lambda>day found. map_option (\<lambda>pushed. found @ pushed)
                                     (day_violations roster ps day)) (d # days) acc
        = Some (acc @ (v @ vs))"
    using v(1) vs(1) by simp
  moreover have "list_all (\<lambda>v. \<not> is_fairness_violation v) (v @ vs)"
    using v(2) vs(2) by simp
  ultimately show ?case by blast
qed

lemma days_loop_clean:
  assumes "distinct ps" and "list_all ordinary_name ps" and "month_staffed roster ps days"
  shows "for_each (\<lambda>day found. map_option (\<lambda>pushed. found @ pushed)
                                     (day_violations roster ps day)) days acc
         = Some acc"
  using assms(3)
proof (induction days arbitrary: acc)
  case Nil
  then show ?case by simp
next
  case (Cons d days)
  then have "day_violations roster ps d = Some []"
    using staffed_day_clean[OF assms(1,2)] by (simp add: month_staffed_def)
  with Cons show ?case by (simp add: month_staffed_def)
qed

lemma checkViolations_listed:
  assumes "distinct ps" and "list_all ordinary_name ps"
  shows "\<exists>vs. checkViolations days roster ps
               = Some (vs @ balance_violations
                               (stats_table (\<lambda>p. worker_stats days roster p zero_stats) ps) ps)
              \<and> list_all (\<lambda>v. \<not> is_fairness_violation v) vs
              \<and> (month_staffed roster ps days \<longrightarrow> vs = [])"
proof (cases "month_staffed roster ps days")
  case True
  then show ?thesis
    using days_loop_clean[OF assms True, of "[]"] calculateStats_table[OF assms]
    by (simp add: checkViolations_def)
next
  case False
  obtain vs where "for_each (\<lambda>day found. map_option (\<lambda>pushed. found @ pushed)
                                     (day_violations roster ps day)) days []
               = Some ([] @ vs)"
    "list_all (\<lambda>v. \<not> is_fairness_violation v) vs"
    using days_loop_listed[OF assms(2)] by blast
  then show ?thesis
    using False calculateStats_table[OF assms] by (simp add: checkViolations_def)
qed


lemma quarter_is_mean:
  "length ps = 4 \<Longrightarrow> deviates_from_quarter q days roster ps w = deviates_from_mean q days roster ps w"
  by (simp add: deviates_from_quarter_def deviates_from_mean_def mean_of_def)


text \<open>
  Claim C5, as amended. When the workers are distinct, none is named like a member of
  \<open>Object.prototype\<close>, and every day that is no Sunday has exactly the required number of
  workers in each of the three periods and respects the per-person cap, checkViolations
  returns a list without headcount or Monday-limit violation: every entry is a fairness
  violation; and for four workers the list is empty exactly when no quantity of a worker
  deviates from its mean by more than the threshold.
\<close>

theorem staffed_month_only_fairness:
  assumes "distinct workers" and "list_all ordinary_name workers"
    and "month_staffed roster workers days"
  shows "\<exists>vs. checkViolations days roster workers = Some vs
              \<and> list_all is_fairness_violation vs
              \<and> (length workers = 4 \<longrightarrow>
                   (vs = [] \<longleftrightarrow> \<not> list_ex (some_quantity_deviates days roster workers) workers))"
proof -
  let ?bal = "balance_violations
                (stats_table (\<lambda>p. worker_stats days roster p zero_stats) workers) workers"
  have eq: "checkViolations days roster workers = Some ?bal"
    using checkViolations_listed[OF assms(1,2), of days roster] assms(3) by auto
  have fair: "list_all is_fairness_violation ?bal"
    using balance_all_fairness fairness_is_fairness by (fastforce simp: list_all_iff)
  have empty: "?bal = [] \<longleftrightarrow> \<not> list_ex (some_quantity_deviates days roster workers) workers"
    if four: "length workers = 4"
  proof -
    have "?bal = [] \<longleftrightarrow> (\<forall>q w. fairness_violation q w \<notin> set ?bal)"
    proof
      assume none: "\<forall>q w. fairness_violation q w \<notin> set ?bal"
      show "?bal = []"
      proof (cases ?bal)
        case (Cons v vs)
        then have "v \<in> set ?bal" by simp
        then obtain q w where "v = fairness_violation q w"
          using balance_all_fairness by blast
        with \<open>v \<in> set ?bal\<close> none show ?thesis by blast
      qed simp
    qed simp
    also have "\<dots> \<longleftrightarrow> (\<forall>q w. \<not> (w \<in> set workers \<and> deviates_from_mean q days roster workers w))"
      using balance_member[OF assms(2)] four by (simp add: quarter_is_mean)
    also have "\<dots> \<longleftrightarrow> \<not> list_ex (some_quantity_deviates days roster workers) workers"
    proof -
      have "some_quantity_deviates days roster workers w
            \<longleftrightarrow> (\<exists>q. deviates_from_mean q days roster workers w)" for w
      proof
        assume "\<exists>q. deviates_from_mean q days roster workers w"
        then obtain q where "deviates_from_mean q days roster workers w" by blast
        then show "some_quantity_deviates days roster workers w"
          by (cases q) (simp_all add: some_quantity_deviates_def)
      qed (auto simp: some_quantity_deviates_def)
      then show ?thesis by (auto simp: list_ex_iff)
    qed
    finally show ?thesis .
  qed
  show ?thesis using eq fair empty by simp
qed



text \<open>
  The theorem on a February 2025 staffed exactly as required, with four workers.
\<close>

theorem staffed_month_only_fairness_witness:
  "distinct staff4 \<and> list_all ordinary_name staff4
   \<and> month_staffed lopsided_roster staff4 february_2025
   \<and> length staff4 = 4
   \<and> list_ex (some_quantity_deviates february_2025 lopsided_roster staff4) staff4
   \<and> checkViolations february_2025 lopsided_roster staff4 \<noteq> None
   \<and> checkViolations february_2025 lopsided_roster staff4 \<noteq> Some []"
proof -
  have d: "distinct staff4" by (simp add: staff4_def)
  have n: "list_all ordinary_name staff4" by code_simp
  have s: "month_staffed lopsided_roster staff4 february_2025" by code_simp
  have l: "length staff4 = 4" by (simp add: staff4_def)
  have x: "list_ex (some_quantity_deviates february_2025 lopsided_roster staff4) staff4"
    by code_simp
  show ?thesis using d n s l x staffed_month_only_fairness[OF d n s] by auto
qed

text \<open>
  Claim C5 as stated fails: February 2025 staffed exactly as required, within the
  cap, still yields a violation, one of the fairness stage.
\<close>

theorem staffed_month_not_empty:
  "distinct staff4 \<and> month_staffed lopsided_roster staff4 february_2025
   \<and> emits (UnevenShifts ''Wang'') (checkViolations february_2025 lopsided_roster staff4)
   \<and> checkViolations february_2025 lopsided_roster staff4 \<noteq> Some []"
  by code_simp

text \<open>
  A pharmacist named like a member of \<open>Object.prototype\<close> and not listed on a working
  day: the headcount loop throws, and no list is returned.
\<close>

lemma inherited_name_throws:
  "checkViolations february_2025 empty_roster [''toString'', ''Li'', ''Zhang'', ''Chen''] = None"
  by code_simp

end
